theory Spec2Isabelle
  imports Complex_Main
begin

section \<open>Data model\<close>

text \<open>
  The rows of the three tables the detection service reads
  (\<^verbatim>\<open>app/models/product.py\<close>, \<^verbatim>\<open>user.py\<close>, \<^verbatim>\<open>verification.py\<close>), with the
  columns the service touches. A nullable column the code tests for truthiness is an
  \<open>option\<close>. A \<^verbatim>\<open>datetime\<close> is an integer number of microseconds, so that
  \<^verbatim>\<open>timedelta(days=n)\<close> is exact.
\<close>

record product =
  prod_id :: int
  blockchain_id :: "int option"
  product_name :: string
  batch_number :: string
  manufacturing_date :: "int option"
  qr_code_hash :: "string option"
  ipfs_hash :: "string option"
  manufacturer_id :: int
  is_active :: bool

record user =
  user_id :: int
  wallet_address :: "string option"
  user_is_active :: bool
  is_verified :: bool

record verification =
  v_product_id :: int
  v_is_authentic :: bool
  verification_date :: int

text \<open>
  The four queries \<^verbatim>\<open>detect_counterfeit\<close> sends to the database session. Any of them
  may raise inside the driver; \<open>db_fault\<close> gives, for a query that raises, the text of
  the exception (\<^verbatim>\<open>str(e)\<close>).
\<close>

datatype query = Q_qr_duplicates | Q_batch_duplicates | Q_recent_verifications | Q_manufacturer

record session =
  products :: "product list"
  users :: "user list"
  verifications :: "verification list"
  db_fault :: "query \<Rightarrow> string option"

text \<open>
  What \<^verbatim>\<open>IPFSService.retrieve_product_data\<close> can do: raise, return
  \<^verbatim>\<open>{"success": False, "error": ...}\<close> (the error key may be absent), or return
  \<^verbatim>\<open>{"success": True, "product_data": {...}}\<close>, of which the validator reads two keys
  with \<^verbatim>\<open>dict.get\<close>.
\<close>

record ipfs_product_data =
  ipfs_product_name :: "string option"
  ipfs_batch_number :: "string option"

datatype ipfs_outcome =
  Ipfs_raises string
  | Ipfs_failure "string option"
  | Ipfs_success ipfs_product_data

text \<open>
  The environment of one call: the session, the content store, and the readings of
  \<^verbatim>\<open>datetime.utcnow()\<close> in the order the code takes them (one in the pattern
  analysis, two in the consistency check).
\<close>

record env =
  db :: session
  retrieve_product_data :: "string \<Rightarrow> ipfs_outcome"
  utcnow_pattern :: int
  utcnow_future :: int
  utcnow_old :: int

record verification_data =
  vd_location :: "string option"
  vd_notes :: "string option"
  vd_verifier_id :: int

record verdict =
  is_authentic :: bool
  detection_reasons :: "string list"
  confidence_score :: rat
  risk_level :: string
  risk_factors :: "string list"
  validation_summary :: "(string \<times> bool) list"

section \<open>Python built-ins used by the service\<close>

text \<open>
  The score is computed in exact rationals: every penalty is a multiple of 0.05 and the
  service rounds the score to two decimals, so the binary rounding error of the few
  additions never reaches the result. The counterfeit rate is printed with one decimal,
  where the binary value decides at a tie, so the rate is a binary64 number: \<open>double\<close>
  rounds a rational to the nearest one (ties to even, normal range), as Python's
  division, multiplication and literals do.
\<close>

definition truthy :: "string option \<Rightarrow> bool" where
  \<comment> \<open>truth value of an optional string: neither \<^verbatim>\<open>None\<close> nor empty\<close>
  "truthy s = (case s of None \<Rightarrow> False | Some x \<Rightarrow> x \<noteq> [])"

definition timedelta_days :: "int \<Rightarrow> int" where
  "timedelta_days n = n * 86400000000"

definition digit_char :: "nat \<Rightarrow> char" where
  "digit_char d = ''0123456789'' ! d"

function str_nat :: "nat \<Rightarrow> string" where
  "str_nat n = (if n < 10 then [digit_char n] else str_nat (n div 10) @ [digit_char (n mod 10)])"
  by pat_completeness auto
termination
  by (relation "measure id") auto

declare str_nat.simps [simp del]

definition round_half_even :: "rat \<Rightarrow> int" where
  \<comment> \<open>the rounding of Python's \<^verbatim>\<open>round\<close> and of its number formatting\<close>
  "round_half_even x =
     (let f = \<lfloor>x\<rfloor>; d = x - of_int f
      in if d < 1 / 2 then f else if 1 / 2 < d then f + 1 else if even f then f else f + 1)"

definition round2 :: "rat \<Rightarrow> rat" where
  \<comment> \<open>\<^verbatim>\<open>round(x, 2)\<close>\<close>
  "round2 x = of_int (round_half_even (x * 100)) / 100"

function bit_length :: "int \<Rightarrow> int" where
  "bit_length a = (if a \<le> 0 then 0 else 1 + bit_length (a div 2))"
  by pat_completeness auto
termination
  by (relation "measure nat") auto

declare bit_length.simps [simp del]

definition pow2 :: "int \<Rightarrow> rat" where
  "pow2 k = (if 0 \<le> k then 2 ^ nat k else 1 / 2 ^ nat (- k))"

definition floor_log2 :: "rat \<Rightarrow> int" where
  \<comment> \<open>the exponent \<open>e\<close> with \<open>2 ^ e \<le> x < 2 ^ (e + 1)\<close>, for \<open>0 < x\<close>\<close>
  "floor_log2 x =
     (let (a, b) = quotient_of x;
          d = bit_length a - bit_length b
      in if pow2 d \<le> x then d else d - 1)"

definition double :: "rat \<Rightarrow> rat" where
  \<comment> \<open>the binary64 number nearest to \<open>x\<close>: 53 significant bits, ties to even\<close>
  "double x =
     (if x = 0 then 0
      else let u = pow2 (floor_log2 \<bar>x\<bar> - 52) in of_int (round_half_even (x / u)) * u)"

definition format_percent1 :: "rat \<Rightarrow> string" where
  \<comment> \<open>\<^verbatim>\<open>f"{x:.1%}"\<close> for a binary64 \<open>0 \<le> x\<close>: the product with 100 is taken in binary64,
      then printed with one decimal, correctly rounded\<close>
  "format_percent1 x =
     (let t = nat (round_half_even (double (x * 100) * 10))
      in str_nat (t div 10) @ ''.'' @ str_nat (t mod 10) @ ''%'')"

definition lower_char :: "char \<Rightarrow> char" where
  "lower_char c =
     (if 65 \<le> (of_char c :: nat) \<and> (of_char c :: nat) \<le> 90
      then char_of (of_char c + 32 :: nat) else c)"

definition lower :: "string \<Rightarrow> string" where
  "lower s = map lower_char s"

fun starts_with :: "string \<Rightarrow> string \<Rightarrow> bool" where
  "starts_with [] s = True"
| "starts_with (w # ws) [] = False"
| "starts_with (w # ws) (c # cs) = (w = c \<and> starts_with ws cs)"

fun str_in :: "string \<Rightarrow> string \<Rightarrow> bool" where
  \<comment> \<open>\<^verbatim>\<open>w in s\<close>\<close>
  "str_in w [] = (w = [])"
| "str_in w (c # cs) = (starts_with w (c # cs) \<or> str_in w cs)"

section \<open>The validators of \<^verbatim>\<open>CounterfeitDetectionService\<close>\<close>

text \<open>
  Each validator returns its flag and its reasons. A validator that queries the session
  returns \<open>Inl msg\<close> where the query raises.
\<close>

definition other_products_with_qr :: "session \<Rightarrow> product \<Rightarrow> string \<Rightarrow> product list" where
  "other_products_with_qr s p h =
     filter (\<lambda>q. qr_code_hash q = Some h \<and> prod_id q \<noteq> prod_id p) (products s)"

definition validate_qr_code ::
  "product \<Rightarrow> string option \<Rightarrow> session \<Rightarrow> string + (bool \<times> string list)" where
  "validate_qr_code p provided_qr_hash s =
     (case qr_code_hash p of
        None \<Rightarrow> Inr (False, [''Invalid QR code hash format - possible counterfeit''])
      | Some h \<Rightarrow>
          if h = [] \<or> length h \<noteq> 64
          then Inr (False, [''Invalid QR code hash format - possible counterfeit''])
          else
            let r0 = [''QR code hash format is valid''];
                (v1, r1) =
                  (if truthy provided_qr_hash
                   then (if Some h \<noteq> provided_qr_hash
                         then (False, r0 @ [''QR code hash mismatch - possible counterfeit''])
                         else (True, r0 @ [''QR code hash matches stored value'']))
                   else (True, r0))
            in (case db_fault s Q_qr_duplicates of
                  Some msg \<Rightarrow> Inl msg
                | None \<Rightarrow>
                    let duplicate_count = length (other_products_with_qr s p h)
                    in if duplicate_count > 0
                       then Inr (False, r1 @ [''Duplicate QR code detected on '' @ str_nat duplicate_count
                                                @ '' other products - counterfeit''])
                       else Inr (v1, r1 @ [''QR code is unique - no duplicates found''])))"

definition validate_ipfs_data :: "env \<Rightarrow> product \<Rightarrow> bool \<times> string list" where
  "validate_ipfs_data e p =
     (case ipfs_hash p of
        None \<Rightarrow> (True, [''No IPFS data available - limited verification''])
      | Some ih \<Rightarrow>
          if ih = [] then (True, [''No IPFS data available - limited verification''])
          else
            (case retrieve_product_data e ih of
               Ipfs_raises msg \<Rightarrow> (False, [''IPFS validation error: '' @ msg])
             | Ipfs_failure err \<Rightarrow>
                 (False, [''IPFS data retrieval failed: ''
                            @ (case err of None \<Rightarrow> ''None'' | Some m \<Rightarrow> m)])
             | Ipfs_success d \<Rightarrow>
                 if ipfs_product_name d \<noteq> Some (product_name p)
                 then (False, [''IPFS data product name mismatch''])
                 else if ipfs_batch_number d \<noteq> Some (batch_number p)
                 then (False, [''IPFS data batch number mismatch''])
                 else (True, [''IPFS data integrity verified''])))"

definition validate_blockchain_data :: "product \<Rightarrow> bool \<times> string list" where
  "validate_blockchain_data p =
     (if blockchain_id p = None \<or> blockchain_id p = Some 0
      then (False, [''Product not registered on blockchain''])
      else (True, [''Product registered on blockchain'']))"

definition duplicate_products :: "session \<Rightarrow> product \<Rightarrow> product list" where
  "duplicate_products s p =
     filter (\<lambda>q. batch_number q = batch_number p \<and> manufacturer_id q = manufacturer_id p
                 \<and> prod_id q \<noteq> prod_id p \<and> is_active q) (products s)"

definition check_duplicates :: "product \<Rightarrow> session \<Rightarrow> string + (bool \<times> string list)" where
  "check_duplicates p s =
     (case db_fault s Q_batch_duplicates of
        Some msg \<Rightarrow> Inl msg
      | None \<Rightarrow>
          if duplicate_products s p \<noteq> []
          then Inr (True, [''Found '' @ str_nat (length (duplicate_products s p))
                             @ '' products with same batch number from same manufacturer''])
          else Inr (False, [''No duplicate products found with same batch number'']))"

definition recent_verifications :: "env \<Rightarrow> product \<Rightarrow> verification list" where
  "recent_verifications e p =
     filter (\<lambda>v. v_product_id v = prod_id p
                 \<and> verification_date v \<ge> utcnow_pattern e - timedelta_days 30)
            (verifications (db e))"

definition analyze_verification_patterns ::
  "product \<Rightarrow> env \<Rightarrow> string + (bool \<times> string list)" where
  "analyze_verification_patterns p e =
     (case db_fault (db e) Q_recent_verifications of
        Some msg \<Rightarrow> Inl msg
      | None \<Rightarrow>
          let total_verifications = length (recent_verifications e p);
              counterfeit_verifications =
                length (filter (\<lambda>v. \<not> v_is_authentic v) (recent_verifications e p));
              (s1, r1) =
                (if total_verifications > 20
                 then (True, [''Excessive verification attempts: '' @ str_nat total_verifications
                                @ '' in 30 days''])
                 else if total_verifications > 10
                 then (False, [''High verification frequency: '' @ str_nat total_verifications
                                 @ '' in 30 days''])
                 else (False, [''Normal verification pattern: '' @ str_nat total_verifications
                                 @ '' in 30 days'']))
          in if total_verifications > 0
             then
               let counterfeit_rate =
                     double (of_nat counterfeit_verifications / of_nat total_verifications)
               in if counterfeit_rate > 1 / 2
                  then Inr (True, r1 @ [''High counterfeit detection rate: ''
                                          @ format_percent1 counterfeit_rate])
                  else if counterfeit_rate > double (1 / 5)
                  then Inr (s1, r1 @ [''Moderate counterfeit detection rate: ''
                                        @ format_percent1 counterfeit_rate])
                  else Inr (s1, r1 @ [''Low counterfeit detection rate: ''
                                        @ format_percent1 counterfeit_rate])
             else Inr (s1, r1))"

definition validate_manufacturer :: "product \<Rightarrow> session \<Rightarrow> string + (bool \<times> string list)" where
  "validate_manufacturer p s =
     (case db_fault s Q_manufacturer of
        Some msg \<Rightarrow> Inl msg
      | None \<Rightarrow>
          (case find (\<lambda>u. user_id u = manufacturer_id p) (users s) of
             None \<Rightarrow> Inr (False, [''Manufacturer not found in database''])
           | Some manufacturer \<Rightarrow>
               if \<not> user_is_active manufacturer
               then Inr (False, [''Manufacturer account is inactive''])
               else if \<not> is_verified manufacturer
               then Inr (True, [''Manufacturer account is not verified''])
               else Inr (True, [''Manufacturer account is valid and verified''])))"

definition check_data_consistency ::
  "product \<Rightarrow> verification_data \<Rightarrow> env \<Rightarrow> bool \<times> string list" where
  "check_data_consistency p vd e =
     (let (c1, r1) =
            (if product_name p = [] \<or> batch_number p = []
             then (False, [''Missing required product information''])
             else (True, [''Product information is complete'']))
      in case manufacturing_date p of
           None \<Rightarrow> (c1, r1)
         | Some d \<Rightarrow>
             if d > utcnow_future e
             then (False, r1 @ [''Manufacturing date is in the future''])
             else if d < utcnow_old e - timedelta_days (365 * 10)
             then (c1, r1 @ [''Product is very old - verify authenticity''])
             else (c1, r1 @ [''Manufacturing date is reasonable'']))"

section \<open>Scoring\<close>

definition penalties :: "string \<Rightarrow> rat" where
  \<comment> \<open>\<^verbatim>\<open>penalties.get(factor, 0.1)\<close>\<close>
  "penalties factor =
     (case map_of
        [(''qr_invalid'', 4 / 10), (''swarm_invalid'', 3 / 10), (''blockchain_invalid'', 2 / 10),
         (''duplicate_detected'', 5 / 10), (''suspicious_pattern'', 3 / 10),
         (''manufacturer_invalid'', 2 / 10), (''data_inconsistent'', 2 / 10),
         (''detection_error'', 5 / 10)] factor
      of Some x \<Rightarrow> x | None \<Rightarrow> 1 / 10)"

definition is_warning_reason :: "string \<Rightarrow> bool" where
  "is_warning_reason r =
     list_ex (\<lambda>word. str_in word (lower r)) [''warning'', ''limited'', ''old'', ''high'']"

definition warning_count :: "string list \<Rightarrow> nat" where
  "warning_count rs = length (filter is_warning_reason rs)"

definition calculate_confidence_score :: "bool \<Rightarrow> string list \<Rightarrow> string list \<Rightarrow> rat" where
  "calculate_confidence_score authentic rfs rs =
     (if \<not> authentic then 0
      else
        let base_score = 9 / 10;
            total_penalty = sum_list (map penalties rfs);
            warning_penalty = of_nat (warning_count rs) * (5 / 100);
            final_score = max 0 (base_score - total_penalty - warning_penalty)
        in round2 final_score)"

definition calculate_risk_level :: "string list \<Rightarrow> rat \<Rightarrow> string" where
  "calculate_risk_level rfs score =
     (if score < 3 / 10 then ''high'' else if score < 7 / 10 then ''medium'' else ''low'')"

section \<open>The detection pipeline\<close>

text \<open>
  The body of the \<^verbatim>\<open>try\<close> block of \<^verbatim>\<open>detect_counterfeit\<close>: the seven checks in
  order, then the score. \<open>Inl msg\<close> is an exception leaving the block.
\<close>

definition run_checks ::
  "env \<Rightarrow> product \<Rightarrow> verification_data \<Rightarrow> string option \<Rightarrow> string + verdict" where
  "run_checks e p vd provided_qr_hash =
     (case validate_qr_code p provided_qr_hash (db e) of
        Inl msg \<Rightarrow> Inl msg
      | Inr qr_validation \<Rightarrow>
     let ipfs_validation = validate_ipfs_data e p;
         blockchain_validation = validate_blockchain_data p
     in
     (case check_duplicates p (db e) of
        Inl msg \<Rightarrow> Inl msg
      | Inr duplicate_check \<Rightarrow>
     (case analyze_verification_patterns p e of
        Inl msg \<Rightarrow> Inl msg
      | Inr pattern_analysis \<Rightarrow>
     (case validate_manufacturer p (db e) of
        Inl msg \<Rightarrow> Inl msg
      | Inr manufacturer_validation \<Rightarrow>
     let consistency_check = check_data_consistency p vd e;
         reasons = snd qr_validation @ snd ipfs_validation @ snd blockchain_validation
                   @ snd duplicate_check @ snd pattern_analysis
                   @ snd manufacturer_validation @ snd consistency_check;
         authentic = (fst qr_validation \<and> fst ipfs_validation \<and> \<not> fst duplicate_check);
         rfs = (if \<not> fst qr_validation then [''qr_invalid''] else [])
               @ (if \<not> fst ipfs_validation then [''ipfs_invalid''] else [])
               @ (if \<not> fst blockchain_validation then [''blockchain_invalid''] else [])
               @ (if fst duplicate_check then [''duplicate_detected''] else [])
               @ (if fst pattern_analysis then [''suspicious_pattern''] else [])
               @ (if \<not> fst manufacturer_validation then [''manufacturer_invalid''] else [])
               @ (if \<not> fst consistency_check then [''data_inconsistent''] else []);
         score = calculate_confidence_score authentic rfs reasons
     in Inr \<lparr>is_authentic = authentic,
             detection_reasons = reasons,
             confidence_score = score,
             risk_level = calculate_risk_level rfs score,
             risk_factors = rfs,
             validation_summary =
               [(''qr_valid'', fst qr_validation),
                (''blockchain_valid'', fst blockchain_validation),
                (''no_duplicates'', \<not> fst duplicate_check),
                (''normal_pattern'', \<not> fst pattern_analysis),
                (''manufacturer_valid'', fst manufacturer_validation),
                (''data_consistent'', fst consistency_check)]\<rparr>))))"

definition detection_error :: "string \<Rightarrow> verdict" where
  \<comment> \<open>the \<^verbatim>\<open>except Exception\<close> branch\<close>
  "detection_error msg =
     \<lparr>is_authentic = False,
      detection_reasons = [''Detection error: '' @ msg],
      confidence_score = 0,
      risk_level = ''high'',
      risk_factors = [''detection_error''],
      validation_summary = []\<rparr>"

definition detect_counterfeit ::
  "env \<Rightarrow> product \<Rightarrow> verification_data \<Rightarrow> string option \<Rightarrow> verdict" where
  "detect_counterfeit e p vd provided_qr_hash =
     (case run_checks e p vd provided_qr_hash of
        Inl msg \<Rightarrow> detection_error msg
      | Inr v \<Rightarrow> v)"

definition comparison_reason :: "string \<Rightarrow> bool" where
  \<comment> \<open>the reasons of the comparison and of the duplicate query of the QR validator\<close>
  "comparison_reason r =
     (r = ''QR code hash mismatch - possible counterfeit''
      \<or> r = ''QR code hash matches stored value''
      \<or> starts_with ''Duplicate QR code detected'' r)"

section \<open>The ledger step of the verification endpoints\<close>

text \<open>
  \<^verbatim>\<open>app/api/v1/endpoints/verifications.py\<close>: after the detection, both endpoints call
  \<^verbatim>\<open>BlockchainService.verify_product\<close> when the user has a wallet address and the
  product a ledger id. The call raises (\<open>Inl\<close>) or returns a dictionary, of which the
  endpoints read \<^verbatim>\<open>success\<close>, \<^verbatim>\<open>verification_result\<close> (default \<^verbatim>\<open>True\<close> when the key is
  absent) and \<^verbatim>\<open>verification_id\<close>.
\<close>

record blockchain_result =
  success :: bool
  verification_result :: "bool option"
  verification_id :: "int option"

record db_verification =
  row_is_authentic :: bool
  row_confidence_score :: rat
  row_risk_level :: string
  blockchain_verified :: bool
  blockchain_verification_id :: "int option"

definition ledger_called :: "user \<Rightarrow> product \<Rightarrow> bool" where
  \<comment> \<open>\<^verbatim>\<open>current_user.wallet_address and product.blockchain_id\<close>\<close>
  "ledger_called current_user p =
     (truthy (wallet_address current_user)
      \<and> blockchain_id p \<noteq> None \<and> blockchain_id p \<noteq> Some 0)"

definition blockchain_authentic :: "blockchain_result \<Rightarrow> bool" where
  \<comment> \<open>\<^verbatim>\<open>blockchain_result.get("verification_result", True)\<close>\<close>
  "blockchain_authentic r = (case verification_result r of None \<Rightarrow> True | Some b \<Rightarrow> b)"

definition create_verification_ledger ::
  "user \<Rightarrow> product \<Rightarrow> string + blockchain_result \<Rightarrow> bool
   \<Rightarrow> verdict \<times> db_verification \<Rightarrow> verdict \<times> db_verification option \<times> db_verification" where
  \<comment> \<open>\<^verbatim>\<open>create_verification\<close> from the ledger call on, started with the detection result
      and the row as first committed. It gives the detection result, the row the
      endpoint returns, and the row the database holds. \<open>commit_raises\<close> is the
      \<^verbatim>\<open>db.commit()\<close> inside the \<^verbatim>\<open>try\<close> block raising: the handler does not roll back, so
      the database keeps the row as first committed and reading the object for the
      response raises (\<open>None\<close>).\<close>
  "create_verification_ledger current_user p outcome commit_raises st =
     (let (detection_result, row) = st
      in if \<not> ledger_called current_user p then (detection_result, Some row, row)
         else
           (case outcome of
              Inl msg \<Rightarrow>
                (detection_result\<lparr>detection_reasons :=
                   detection_reasons detection_result @ [''Blockchain verification error'']\<rparr>,
                 Some row, row)
            | Inr r \<Rightarrow>
                if \<not> success r then (detection_result, Some row, row)
                else
                  let (d1, row1) =
                        (if \<not> blockchain_authentic r
                         then (detection_result\<lparr>is_authentic := False,
                                 detection_reasons := detection_reasons detection_result
                                   @ [''Blockchain verification failed - product marked as counterfeit'']\<rparr>,
                               row\<lparr>row_is_authentic := False\<rparr>)
                         else (detection_result, row));
                      row2 = row1\<lparr>blockchain_verification_id := verification_id r,
                                  blockchain_verified := True\<rparr>
                  in if commit_raises
                     then (d1\<lparr>detection_reasons :=
                             detection_reasons d1 @ [''Blockchain verification error'']\<rparr>,
                           None, row)
                     else (d1, Some row2, row2)))"

definition analyze_counterfeit_detection_ledger ::
  "user \<Rightarrow> product \<Rightarrow> string + blockchain_result \<Rightarrow> verdict \<Rightarrow> verdict" where
  \<comment> \<open>\<^verbatim>\<open>analyze_counterfeit_detection\<close> from the ledger call to the end of its
      \<^verbatim>\<open>try\<close> block\<close>
  "analyze_counterfeit_detection_ledger current_user p outcome detection_result =
     (if \<not> ledger_called current_user p then detection_result
      else
        (case outcome of
           Inl msg \<Rightarrow>
             detection_result\<lparr>detection_reasons :=
               detection_reasons detection_result @ [''Blockchain verification error'']\<rparr>
         | Inr r \<Rightarrow>
             if \<not> success r
             then detection_result\<lparr>detection_reasons :=
                    detection_reasons detection_result @ [''Blockchain verification failed'']\<rparr>
             else if \<not> blockchain_authentic r
             then detection_result\<lparr>is_authentic := False,
                    detection_reasons := detection_reasons detection_result
                      @ [''Blockchain marked product as counterfeit'']\<rparr>
             else detection_result))"

section \<open>The specification's notion of a hexadecimal fingerprint\<close>

definition spec_is_hex_digit :: "char \<Rightarrow> bool" where
  \<comment> \<open>from the specification's words ("all-hex"), not from the code, which has no such test\<close>
  "spec_is_hex_digit c = (c \<in> set ''0123456789abcdefABCDEF'')"

section \<open>Example inputs\<close>

text \<open>
  A small shop: one manufacturer with a verified account and one without, one product
  registered on the ledger with a well-formed fingerprint and no content-store hash, and
  no verification so far. The clock stands at 1.7e15 microseconds; the product was made
  the day before.
\<close>

definition fp_a :: string where
  "fp_a = ''aaaaaaaaaaaaaaaaaaaaaaaaaaaaaaaaaaaaaaaaaaaaaaaaaaaaaaaaaaaaaaaa''"

definition fp_z :: string where
  "fp_z = ''zzzzzzzzzzzzzzzzzzzzzzzzzzzzzzzzzzzzzzzzzzzzzzzzzzzzzzzzzzzzzzzz''"

definition maker :: user where
  "maker = \<lparr>user_id = 7, wallet_address = None, user_is_active = True, is_verified = True\<rparr>"

definition maker_unverified :: user where
  "maker_unverified =
     \<lparr>user_id = 8, wallet_address = None, user_is_active = True, is_verified = False\<rparr>"

definition widget :: product where
  "widget =
     \<lparr>prod_id = 1, blockchain_id = Some 5, product_name = ''Widget'', batch_number = ''B-001'',
      manufacturing_date = Some 1699913600000000, qr_code_hash = Some fp_a, ipfs_hash = None,
      manufacturer_id = 7, is_active = True\<rparr>"

definition shop_db :: session where
  "shop_db =
     \<lparr>products = [widget], users = [maker, maker_unverified], verifications = [],
      db_fault = (\<lambda>q. None)\<rparr>"

definition shop_env :: env where
  "shop_env =
     \<lparr>db = shop_db, retrieve_product_data = (\<lambda>h. Ipfs_failure None),
      utcnow_pattern = 1700000000000000, utcnow_future = 1700000000000000,
      utcnow_old = 1700000000000000\<rparr>"

definition visit :: verification_data where
  "visit = \<lparr>vd_location = Some ''Accra'', vd_notes = None, vd_verifier_id = 3\<rparr>"

definition broken_env :: env where
  \<comment> \<open>the same shop, with the manufacturer lookup raising\<close>
  "broken_env =
     shop_env\<lparr>db := shop_db\<lparr>db_fault :=
       (\<lambda>q. if q = Q_manufacturer then Some ''connection lost'' else None)\<rparr>\<rparr>"

definition spare :: product where
  \<comment> \<open>a deactivated product of the same manufacturer, with a fingerprint of its own\<close>
  "spare =
     widget\<lparr>prod_id := 2, batch_number := ''B-002'', qr_code_hash := Some fp_z,
            is_active := False\<rparr>"

definition catalogue_db :: session where
  "catalogue_db = shop_db\<lparr>products := [widget, spare]\<rparr>"

definition stored_widget :: product where
  \<comment> \<open>\<open>widget\<close> with a content-store hash\<close>
  "stored_widget = widget\<lparr>ipfs_hash := Some ''QmWidget''\<rparr>"

definition store_down_env :: env where
  \<comment> \<open>the shop with \<open>stored_widget\<close> on sale and a content store whose every call raises\<close>
  "store_down_env =
     shop_env\<lparr>db := shop_db\<lparr>products := [stored_widget]\<rparr>,
              retrieve_product_data := (\<lambda>h. Ipfs_raises ''timed out'')\<rparr>"

definition buyer :: user where
  "buyer =
     \<lparr>user_id = 3, wallet_address = Some ''0xf39Fd6e51aad88F6F4ce6aB8827279cffFb92266'',
      user_is_active = True, is_verified = True\<rparr>"

definition ledger_says_counterfeit :: blockchain_result where
  "ledger_says_counterfeit =
     \<lparr>success = True, verification_result = Some False, verification_id = None\<rparr>"

definition pending_row :: db_verification where
  \<comment> \<open>the row \<^verbatim>\<open>create_verification\<close> stores for an authentic verdict of score 0.85\<close>
  "pending_row =
     \<lparr>row_is_authentic = True, row_confidence_score = 85 / 100, row_risk_level = ''low'',
      blockchain_verified = False, blockchain_verification_id = None\<rparr>"

definition unregistered_widget :: product where
  \<comment> \<open>\<open>widget\<close> without ledger id, made by the unverified manufacturer\<close>
  "unregistered_widget = widget\<lparr>blockchain_id := None, manufacturer_id := 8\<rparr>"

section \<open>Rounding and scoring lemmas\<close>

lemma round_half_even_bounds:
  assumes "of_int a \<le> x" and "x \<le> of_int b"
  shows "a \<le> round_half_even x \<and> round_half_even x \<le> b"
proof -
  have fa: "a \<le> \<lfloor>x\<rfloor>" using assms(1) by (simp add: le_floor_iff)
  have fb: "\<lfloor>x\<rfloor> \<le> b" using assms(2) by (simp add: floor_le_iff)
  have up: "round_half_even x \<le> b"
  proof (cases "\<lfloor>x\<rfloor> = b")
    case True
    then have "x - of_int \<lfloor>x\<rfloor> \<le> 0" using assms(2) by simp
    then show ?thesis using True by (simp add: round_half_even_def Let_def)
  next
    case False
    then have "\<lfloor>x\<rfloor> + 1 \<le> b" using fb by simp
    then show ?thesis by (simp add: round_half_even_def Let_def)
  qed
  have lo: "a \<le> round_half_even x" using fa by (simp add: round_half_even_def Let_def)
  show ?thesis using lo up by simp
qed

lemma round_half_even_of_int: "round_half_even (of_int n) = n"
  by (simp add: round_half_even_def)

lemma penalties_nonneg: "0 \<le> penalties f"
  by (simp add: penalties_def)

lemma total_penalty_nonneg: "0 \<le> sum_list (map penalties rfs)"
  by (induction rfs) (simp_all add: penalties_nonneg)

lemma calculate_confidence_score_bounds:
  "0 \<le> calculate_confidence_score a rfs rs \<and> calculate_confidence_score a rfs rs \<le> 9 / 10"
proof (cases a)
  case False
  then show ?thesis by (simp add: calculate_confidence_score_def)
next
  case True
  define P where "P = sum_list (map penalties rfs)"
  define W :: rat where "W = of_nat (warning_count rs) * (5 / 100)"
  define x :: rat where "x = max 0 (9 / 10 - P - W)"
  have P0: "0 \<le> P" unfolding P_def by (rule total_penalty_nonneg)
  have W0: "0 \<le> W" unfolding W_def by simp
  have x0: "0 \<le> x" by (simp add: x_def)
  have x1: "x \<le> 9 / 10"
    unfolding x_def max_def using P0 W0 by (cases "0 \<le> 9 / 10 - P - W") simp_all
  have "of_int 0 \<le> x * 100" "x * 100 \<le> of_int 90" using x0 x1 by simp_all
  then have "0 \<le> round_half_even (x * 100) \<and> round_half_even (x * 100) \<le> 90"
    by (rule round_half_even_bounds)
  then have "0 \<le> round2 x \<and> round2 x \<le> 9 / 10"
    by (simp add: round2_def)
  then show ?thesis
    using True by (simp add: calculate_confidence_score_def Let_def x_def P_def W_def)
qed

lemma calculate_confidence_score_not_authentic: "calculate_confidence_score False rfs rs = 0"
  by (simp add: calculate_confidence_score_def)

section \<open>The shape of a run\<close>

lemma run_checks_Inr:
  assumes "run_checks e p vd h = Inr v"
  shows "\<exists>qr dup pat man.
     validate_qr_code p h (db e) = Inr qr \<and> check_duplicates p (db e) = Inr dup \<and>
     analyze_verification_patterns p e = Inr pat \<and> validate_manufacturer p (db e) = Inr man"
  using assms by (auto simp: run_checks_def Let_def split: sum.splits)

lemma run_checks_Inl:
  assumes "run_checks e p vd h = Inl msg"
  shows "validate_qr_code p h (db e) = Inl msg \<or> check_duplicates p (db e) = Inl msg \<or>
     analyze_verification_patterns p e = Inl msg \<or> validate_manufacturer p (db e) = Inl msg"
  using assms by (auto simp: run_checks_def Let_def split: sum.splits)

lemma validate_qr_code_Inl:
  "validate_qr_code p h s = Inl msg \<Longrightarrow> db_fault s Q_qr_duplicates = Some msg"
  by (auto simp: validate_qr_code_def Let_def split: option.splits if_splits prod.splits)

lemma check_duplicates_Inl:
  "check_duplicates p s = Inl msg \<Longrightarrow> db_fault s Q_batch_duplicates = Some msg"
  by (auto simp: check_duplicates_def split: option.splits if_splits)

lemma analyze_verification_patterns_Inl:
  "analyze_verification_patterns p e = Inl msg \<Longrightarrow>
   db_fault (db e) Q_recent_verifications = Some msg"
  by (auto simp: analyze_verification_patterns_def Let_def
      split: option.splits if_splits prod.splits)

lemma validate_manufacturer_Inl:
  "validate_manufacturer p s = Inl msg \<Longrightarrow> db_fault s Q_manufacturer = Some msg"
  by (auto simp: validate_manufacturer_def split: option.splits if_splits)

lemma run_checks_eq:
  assumes "validate_qr_code p h (db e) = Inr qr" and "check_duplicates p (db e) = Inr dup"
    and "analyze_verification_patterns p e = Inr pat"
    and "validate_manufacturer p (db e) = Inr man"
  shows "\<exists>v. run_checks e p vd h = Inr v \<and>
    is_authentic v = (fst qr \<and> fst (validate_ipfs_data e p) \<and> \<not> fst dup) \<and>
    detection_reasons v =
       snd qr @ snd (validate_ipfs_data e p) @ snd (validate_blockchain_data p)
       @ snd dup @ snd pat @ snd man @ snd (check_data_consistency p vd e) \<and>
    risk_factors v =
       (if \<not> fst qr then [''qr_invalid''] else [])
       @ (if \<not> fst (validate_ipfs_data e p) then [''ipfs_invalid''] else [])
       @ (if \<not> fst (validate_blockchain_data p) then [''blockchain_invalid''] else [])
       @ (if fst dup then [''duplicate_detected''] else [])
       @ (if fst pat then [''suspicious_pattern''] else [])
       @ (if \<not> fst man then [''manufacturer_invalid''] else [])
       @ (if \<not> fst (check_data_consistency p vd e) then [''data_inconsistent''] else []) \<and>
    confidence_score v =
       calculate_confidence_score (is_authentic v) (risk_factors v) (detection_reasons v) \<and>
    risk_level v = calculate_risk_level (risk_factors v) (confidence_score v)"
  using assms by (simp add: run_checks_def Let_def)

lemma run_checks_explicit:
  assumes "validate_qr_code p h (db e) = Inr qr" and "check_duplicates p (db e) = Inr dup"
    and "analyze_verification_patterns p e = Inr pat"
    and "validate_manufacturer p (db e) = Inr man"
    and "validate_ipfs_data e p = ipfs" and "validate_blockchain_data p = bc"
    and "check_data_consistency p vd e = cons"
    and "reasons = snd qr @ snd ipfs @ snd bc @ snd dup @ snd pat @ snd man @ snd cons"
    and "rfs = (if \<not> fst qr then [''qr_invalid''] else [])
       @ (if \<not> fst ipfs then [''ipfs_invalid''] else [])
       @ (if \<not> fst bc then [''blockchain_invalid''] else [])
       @ (if fst dup then [''duplicate_detected''] else [])
       @ (if fst pat then [''suspicious_pattern''] else [])
       @ (if \<not> fst man then [''manufacturer_invalid''] else [])
       @ (if \<not> fst cons then [''data_inconsistent''] else [])"
    and "authentic = (fst qr \<and> fst ipfs \<and> \<not> fst dup)"
    and "score = calculate_confidence_score authentic rfs reasons"
  shows "detect_counterfeit e p vd h =
     \<lparr>is_authentic = authentic, detection_reasons = reasons, confidence_score = score,
      risk_level = calculate_risk_level rfs score, risk_factors = rfs,
      validation_summary =
               [(''qr_valid'', fst qr),
                (''blockchain_valid'', fst bc),
                (''no_duplicates'', \<not> fst dup),
                (''normal_pattern'', \<not> fst pat),
                (''manufacturer_valid'', fst man),
                (''data_consistent'', fst cons)]\<rparr>"
  using assms by (simp add: detect_counterfeit_def run_checks_def Let_def)

lemma run_checks_score:
  assumes "run_checks e p vd h = Inr v"
  shows "confidence_score v =
         calculate_confidence_score (is_authentic v) (risk_factors v) (detection_reasons v)"
  using assms by (auto simp: run_checks_def Let_def split: sum.splits)

text \<open>
  An exception of the content store never leaves its validator: the inner handler turns it
  into a failed check, and the verdict is negative with score 0 all the same.
\<close>

lemma ipfs_exception_handled_locally:
  assumes "ipfs_hash p = Some ih" and "ih \<noteq> []" and "retrieve_product_data e ih = Ipfs_raises m"
  shows "validate_ipfs_data e p = (False, [''IPFS validation error: '' @ m])"
  using assms by (simp add: validate_ipfs_data_def)

text \<open>A query that every run reaches and that raises makes the run raise.\<close>

lemma reached_fault_raises:
  assumes "db_fault (db e) q = Some m" and "q \<noteq> Q_qr_duplicates"
  shows "\<exists>msg. run_checks e p vd h = Inl msg"
proof (cases "run_checks e p vd h")
  case (Inl msg)
  then show ?thesis by blast
next
  case (Inr v)
  then obtain dup pat man where
    d: "check_duplicates p (db e) = Inr dup" and
    a: "analyze_verification_patterns p e = Inr pat" and
    m: "validate_manufacturer p (db e) = Inr man"
    using run_checks_Inr by blast
  have "db_fault (db e) Q_batch_duplicates = None"
    using d by (auto simp: check_duplicates_def split: option.splits)
  moreover have "db_fault (db e) Q_recent_verifications = None"
    using a by (auto simp: analyze_verification_patterns_def split: option.splits)
  moreover have "db_fault (db e) Q_manufacturer = None"
    using m by (auto simp: validate_manufacturer_def split: option.splits)
  ultimately show ?thesis using assms by (cases q) simp_all
qed

section \<open>The gate policy\<close>

text \<open>
  Claim C1. On the path where no exception leaves the checks, the verdict is negative
  exactly when the QR validator, the IPFS validator or the batch-duplicate check fails.
  The ledger-registration check, the pattern analysis, the manufacturer check and the
  consistency check decide only whether their own entry is in \<open>risk_factors\<close>.
\<close>

theorem gate_policy:
  assumes "run_checks e p vd h = Inr v"
  shows "\<exists>qr dup pat man.
     validate_qr_code p h (db e) = Inr qr \<and> check_duplicates p (db e) = Inr dup \<and>
     analyze_verification_patterns p e = Inr pat \<and> validate_manufacturer p (db e) = Inr man \<and>
     detect_counterfeit e p vd h = v \<and>
     (\<not> is_authentic v \<longleftrightarrow> \<not> fst qr \<or> \<not> fst (validate_ipfs_data e p) \<or> fst dup) \<and>
     (''blockchain_invalid'' \<in> set (risk_factors v) \<longleftrightarrow> \<not> fst (validate_blockchain_data p)) \<and>
     (''suspicious_pattern'' \<in> set (risk_factors v) \<longleftrightarrow> fst pat) \<and>
     (''manufacturer_invalid'' \<in> set (risk_factors v) \<longleftrightarrow> \<not> fst man) \<and>
     (''data_inconsistent'' \<in> set (risk_factors v)
        \<longleftrightarrow> \<not> fst (check_data_consistency p vd e))"
proof -
  obtain qr dup pat man where
    q: "validate_qr_code p h (db e) = Inr qr" and d: "check_duplicates p (db e) = Inr dup" and
    a: "analyze_verification_patterns p e = Inr pat" and
    m: "validate_manufacturer p (db e) = Inr man"
    using run_checks_Inr [OF assms] by blast
  obtain v' where v': "run_checks e p vd h = Inr v'"
    and au: "is_authentic v' = (fst qr \<and> fst (validate_ipfs_data e p) \<and> \<not> fst dup)"
    and rf: "risk_factors v' =
       (if \<not> fst qr then [''qr_invalid''] else [])
       @ (if \<not> fst (validate_ipfs_data e p) then [''ipfs_invalid''] else [])
       @ (if \<not> fst (validate_blockchain_data p) then [''blockchain_invalid''] else [])
       @ (if fst dup then [''duplicate_detected''] else [])
       @ (if fst pat then [''suspicious_pattern''] else [])
       @ (if \<not> fst man then [''manufacturer_invalid''] else [])
       @ (if \<not> fst (check_data_consistency p vd e) then [''data_inconsistent''] else [])"
    using run_checks_eq [OF q d a m, of vd] by blast
  have vv: "v' = v" using v' assms by simp
  have dc: "detect_counterfeit e p vd h = v" using assms by (simp add: detect_counterfeit_def)
  have g: "\<not> is_authentic v \<longleftrightarrow> \<not> fst qr \<or> \<not> fst (validate_ipfs_data e p) \<or> fst dup"
    using au vv by blast
  have r1: "''blockchain_invalid'' \<in> set (risk_factors v)
            \<longleftrightarrow> \<not> fst (validate_blockchain_data p)"
    unfolding vv [symmetric] rf by simp
  have r2: "''suspicious_pattern'' \<in> set (risk_factors v) \<longleftrightarrow> fst pat"
    unfolding vv [symmetric] rf by simp
  have r3: "''manufacturer_invalid'' \<in> set (risk_factors v) \<longleftrightarrow> \<not> fst man"
    unfolding vv [symmetric] rf by simp
  have r4: "''data_inconsistent'' \<in> set (risk_factors v)
            \<longleftrightarrow> \<not> fst (check_data_consistency p vd e)"
    unfolding vv [symmetric] rf by simp
  show ?thesis using q d a m dc g r1 r2 r3 r4 by blast
qed

theorem gate_policy_witness:
  "run_checks shop_env widget visit (Some fp_z) =
     Inr \<lparr>is_authentic = False,
          detection_reasons =
            [''QR code hash format is valid'',
             ''QR code hash mismatch - possible counterfeit'',
             ''QR code is unique - no duplicates found'',
             ''No IPFS data available - limited verification'',
             ''Product registered on blockchain'',
             ''No duplicate products found with same batch number'',
             ''Normal verification pattern: 0 in 30 days'',
             ''Manufacturer account is valid and verified'',
             ''Product information is complete'',
             ''Manufacturing date is reasonable''],
          confidence_score = 0, risk_level = ''high'', risk_factors = [''qr_invalid''],
          validation_summary =
            [(''qr_valid'', False), (''blockchain_valid'', True),
             (''no_duplicates'', True), (''normal_pattern'', True),
             (''manufacturer_valid'', True), (''data_consistent'', True)]\<rparr>
   \<and> (\<exists>qr dup. validate_qr_code widget (Some fp_z) (db shop_env) = Inr qr
          \<and> check_duplicates widget (db shop_env) = Inr dup
          \<and> fst qr = False \<and> fst dup = False
          \<and> fst (validate_ipfs_data shop_env widget) = True)"
proof -
  have h: "run_checks shop_env widget visit (Some fp_z) =
     Inr \<lparr>is_authentic = False,
          detection_reasons =
            [''QR code hash format is valid'',
             ''QR code hash mismatch - possible counterfeit'',
             ''QR code is unique - no duplicates found'',
             ''No IPFS data available - limited verification'',
             ''Product registered on blockchain'',
             ''No duplicate products found with same batch number'',
             ''Normal verification pattern: 0 in 30 days'',
             ''Manufacturer account is valid and verified'',
             ''Product information is complete'',
             ''Manufacturing date is reasonable''],
          confidence_score = 0, risk_level = ''high'', risk_factors = [''qr_invalid''],
          validation_summary =
            [(''qr_valid'', False), (''blockchain_valid'', True),
             (''no_duplicates'', True), (''normal_pattern'', True),
             (''manufacturer_valid'', True), (''data_consistent'', True)]\<rparr>"
    by code_simp
  have i: "fst (validate_ipfs_data shop_env widget) = True"
    by code_simp
  have d: "check_duplicates widget (db shop_env) =
             Inr (False, [''No duplicate products found with same batch number''])"
    by code_simp
  show ?thesis using h i d gate_policy [OF h] by auto
qed

section \<open>The confidence score\<close>

text \<open>
  Claim C2. Whatever the input, the confidence score of the verdict lies between 0 and 1,
  and a negative verdict has score 0.
\<close>

theorem confidence_score_range:
  "0 \<le> confidence_score (detect_counterfeit e p vd h) \<and>
   confidence_score (detect_counterfeit e p vd h) \<le> 1 \<and>
   (\<not> is_authentic (detect_counterfeit e p vd h)
      \<longrightarrow> confidence_score (detect_counterfeit e p vd h) = 0)"
proof (cases "run_checks e p vd h")
  case (Inl msg)
  then show ?thesis by (simp add: detect_counterfeit_def detection_error_def)
next
  case (Inr v)
  have s: "confidence_score v =
           calculate_confidence_score (is_authentic v) (risk_factors v) (detection_reasons v)"
    using Inr by (rule run_checks_score)
  have b: "0 \<le> confidence_score v \<and> confidence_score v \<le> 9 / 10"
    unfolding s by (rule calculate_confidence_score_bounds)
  have z: "\<not> is_authentic v \<longrightarrow> confidence_score v = 0"
    unfolding s by (simp add: calculate_confidence_score_not_authentic)
  show ?thesis using Inr b z by (simp add: detect_counterfeit_def)
qed

theorem confidence_score_range_witness:
  "\<not> is_authentic (detect_counterfeit shop_env widget visit (Some fp_z)) \<and>
   confidence_score (detect_counterfeit shop_env widget visit (Some fp_z)) = 0"
proof -
  have h: "\<not> is_authentic (detect_counterfeit shop_env widget visit (Some fp_z))"
    by code_simp
  show ?thesis using h confidence_score_range [of shop_env widget visit "Some fp_z"] by blast
qed

section \<open>Exceptions\<close>

lemma negative_verdict_score:
  assumes "\<not> is_authentic (detect_counterfeit e p vd h)"
  shows "confidence_score (detect_counterfeit e p vd h) = 0"
proof (cases "run_checks e p vd h")
  case (Inl msg)
  then show ?thesis by (simp add: detect_counterfeit_def detection_error_def)
next
  case (Inr v)
  then have "confidence_score v =
      calculate_confidence_score (is_authentic v) (risk_factors v) (detection_reasons v)"
    by (rule run_checks_score)
  then show ?thesis
    using Inr assms
    by (simp add: detect_counterfeit_def calculate_confidence_score_not_authentic)
qed

lemma first_check_raises:
  assumes "db_fault (db e) Q_qr_duplicates = Some m"
    and "qr_code_hash p = Some fp" and "length fp = 64"
  shows "run_checks e p vd h = Inl m"
proof -
  have "fp \<noteq> []" using assms(3) by auto
  then have "validate_qr_code p h (db e) = Inl m"
    using assms by (simp add: validate_qr_code_def Let_def split: prod.splits)
  then show ?thesis by (simp add: run_checks_def)
qed

text \<open>
  Claim C3, as the code has it. When a query of the session that the run reaches raises,
  \<^verbatim>\<open>detect_counterfeit\<close> catches the exception at its outer handler and returns the
  negative verdict with score 0, risk level high, the one reason "Detection error: "
  followed by the text of an exception of the session, and the one risk factor
  \<^verbatim>\<open>detection_error\<close>. An exception of the content store does not reach that handler:
  the IPFS validator catches it, and the verdict is negative with score 0 and risk level
  high all the same, but when no query raises it carries the reasons of all the checks,
  "IPFS validation error: " with the text of the exception among them, and the risk
  factor \<^verbatim>\<open>ipfs_invalid\<close>. No exception leaves \<^verbatim>\<open>detect_counterfeit\<close> either way.
\<close>

theorem fail_closed:
  "(db_fault (db e) q = Some m
      \<and> (q = Q_qr_duplicates \<longrightarrow> (\<exists>fp. qr_code_hash p = Some fp \<and> length fp = 64))
    \<longrightarrow> (\<exists>q' msg. db_fault (db e) q' = Some msg \<and>
          detect_counterfeit e p vd h =
            \<lparr>is_authentic = False,
             detection_reasons = [''Detection error: '' @ msg],
             confidence_score = 0,
             risk_level = ''high'',
             risk_factors = [''detection_error''],
             validation_summary = []\<rparr>))
   \<and> (ipfs_hash p = Some ih \<and> ih \<noteq> [] \<and> retrieve_product_data e ih = Ipfs_raises m'
      \<longrightarrow> \<not> is_authentic (detect_counterfeit e p vd h)
        \<and> confidence_score (detect_counterfeit e p vd h) = 0
        \<and> risk_level (detect_counterfeit e p vd h) = ''high''
        \<and> ((\<forall>q. db_fault (db e) q = None)
            \<longrightarrow> ''IPFS validation error: '' @ m' \<in> set (detection_reasons (detect_counterfeit e p vd h))
              \<and> ''ipfs_invalid'' \<in> set (risk_factors (detect_counterfeit e p vd h))
              \<and> 1 < length (detection_reasons (detect_counterfeit e p vd h))))"
proof (rule conjI; rule impI)
  assume a: "db_fault (db e) q = Some m
      \<and> (q = Q_qr_duplicates \<longrightarrow> (\<exists>fp. qr_code_hash p = Some fp \<and> length fp = 64))"
  have "\<exists>msg. run_checks e p vd h = Inl msg"
  proof (cases "q = Q_qr_duplicates")
    case True
    then obtain fp where "qr_code_hash p = Some fp" "length fp = 64" using a by blast
    then show ?thesis using a True first_check_raises by blast
  next
    case False
    then show ?thesis using a reached_fault_raises by blast
  qed
  then obtain msg where r: "run_checks e p vd h = Inl msg" by blast
  have "\<exists>q'. db_fault (db e) q' = Some msg"
    using run_checks_Inl [OF r] validate_qr_code_Inl check_duplicates_Inl
      analyze_verification_patterns_Inl validate_manufacturer_Inl by blast
  then show "\<exists>q' msg. db_fault (db e) q' = Some msg \<and>
          detect_counterfeit e p vd h =
            \<lparr>is_authentic = False,
             detection_reasons = [''Detection error: '' @ msg],
             confidence_score = 0,
             risk_level = ''high'',
             risk_factors = [''detection_error''],
             validation_summary = []\<rparr>"
    using r by (auto simp: detect_counterfeit_def detection_error_def)
next
  assume b: "ipfs_hash p = Some ih \<and> ih \<noteq> [] \<and> retrieve_product_data e ih = Ipfs_raises m'"
  then have ip: "validate_ipfs_data e p = (False, [''IPFS validation error: '' @ m'])"
    by (simp add: ipfs_exception_handled_locally)
  have neg: "\<not> is_authentic (detect_counterfeit e p vd h)"
  proof (cases "run_checks e p vd h")
    case (Inl msg)
    then show ?thesis by (simp add: detect_counterfeit_def detection_error_def)
  next
    case (Inr v)
    then obtain qr dup pat man where
      q: "validate_qr_code p h (db e) = Inr qr" and d: "check_duplicates p (db e) = Inr dup" and
      a: "analyze_verification_patterns p e = Inr pat" and
      m: "validate_manufacturer p (db e) = Inr man"
      using run_checks_Inr by blast
    show ?thesis
      by (simp add: run_checks_explicit [OF q d a m ip refl refl refl refl refl refl])
  qed
  have z: "confidence_score (detect_counterfeit e p vd h) = 0"
    using neg by (rule negative_verdict_score)
  have rl: "risk_level (detect_counterfeit e p vd h) = ''high''"
  proof (cases "run_checks e p vd h")
    case (Inl msg)
    then show ?thesis by (simp add: detect_counterfeit_def detection_error_def)
  next
    case (Inr v)
    then obtain qr dup pat man where
      q: "validate_qr_code p h (db e) = Inr qr" and d: "check_duplicates p (db e) = Inr dup" and
      a: "analyze_verification_patterns p e = Inr pat" and
      m: "validate_manufacturer p (db e) = Inr man"
      using run_checks_Inr by blast
    show ?thesis
      by (simp add: run_checks_explicit [OF q d a m ip refl refl refl refl refl refl]
          calculate_confidence_score_not_authentic calculate_risk_level_def)
  qed
  have rs: "''IPFS validation error: '' @ m' \<in> set (detection_reasons (detect_counterfeit e p vd h))
        \<and> ''ipfs_invalid'' \<in> set (risk_factors (detect_counterfeit e p vd h))
        \<and> 1 < length (detection_reasons (detect_counterfeit e p vd h))"
    if nf: "\<forall>q. db_fault (db e) q = None"
  proof -
    have "\<exists>v. run_checks e p vd h = Inr v"
    proof (cases "run_checks e p vd h")
      case (Inl msg)
      then have "\<exists>q'. db_fault (db e) q' = Some msg"
        using run_checks_Inl [OF Inl] validate_qr_code_Inl check_duplicates_Inl
          analyze_verification_patterns_Inl validate_manufacturer_Inl by blast
      then show ?thesis using nf by simp
    next
      case (Inr v)
      then show ?thesis by blast
    qed
    then obtain qr dup pat man where
      q: "validate_qr_code p h (db e) = Inr qr" and d: "check_duplicates p (db e) = Inr dup" and
      a: "analyze_verification_patterns p e = Inr pat" and
      m: "validate_manufacturer p (db e) = Inr man"
      using run_checks_Inr by blast
    have "snd qr \<noteq> []"
      using q by (auto simp: validate_qr_code_def Let_def split: option.splits if_splits prod.splits)
    then have "0 < length (snd qr)" by simp
    then show ?thesis
      by (simp add: run_checks_explicit [OF q d a m ip refl refl refl refl refl refl])
  qed
  show "\<not> is_authentic (detect_counterfeit e p vd h)
        \<and> confidence_score (detect_counterfeit e p vd h) = 0
        \<and> risk_level (detect_counterfeit e p vd h) = ''high''
        \<and> ((\<forall>q. db_fault (db e) q = None)
            \<longrightarrow> ''IPFS validation error: '' @ m' \<in> set (detection_reasons (detect_counterfeit e p vd h))
              \<and> ''ipfs_invalid'' \<in> set (risk_factors (detect_counterfeit e p vd h))
              \<and> 1 < length (detection_reasons (detect_counterfeit e p vd h)))"
    using neg z rl rs by blast
qed

section \<open>The QR validator\<close>

text \<open>No other check emits a reason of the comparison or of the duplicate query.\<close>

lemma validate_ipfs_data_reasons:
  "r \<in> set (snd (validate_ipfs_data e p)) \<Longrightarrow> \<not> comparison_reason r"
  by (auto simp: validate_ipfs_data_def comparison_reason_def
      split: option.splits ipfs_outcome.splits if_splits)

lemma validate_blockchain_data_reasons:
  "r \<in> set (snd (validate_blockchain_data p)) \<Longrightarrow> \<not> comparison_reason r"
  by (auto simp: validate_blockchain_data_def comparison_reason_def split: if_splits)

lemma check_duplicates_reasons:
  "check_duplicates p s = Inr dup \<Longrightarrow> r \<in> set (snd dup) \<Longrightarrow> \<not> comparison_reason r"
  by (auto simp: check_duplicates_def comparison_reason_def split: option.splits if_splits)

lemma analyze_verification_patterns_reasons:
  "analyze_verification_patterns p e = Inr pat \<Longrightarrow> r \<in> set (snd pat) \<Longrightarrow>
   \<not> comparison_reason r"
  by (auto simp: analyze_verification_patterns_def comparison_reason_def Let_def
      split: option.splits if_splits)

lemma validate_manufacturer_reasons:
  "validate_manufacturer p s = Inr man \<Longrightarrow> r \<in> set (snd man) \<Longrightarrow> \<not> comparison_reason r"
  by (auto simp: validate_manufacturer_def comparison_reason_def split: option.splits if_splits)

lemma check_data_consistency_reasons:
  "r \<in> set (snd (check_data_consistency p vd e)) \<Longrightarrow> \<not> comparison_reason r"
  by (auto simp: check_data_consistency_def comparison_reason_def split: option.splits if_splits)

text \<open>
  Claim C10. A stored fingerprint that is missing or whose length is not 64 ends the QR
  validator at once: it returns the format reason alone, whatever fingerprint is
  presented and whatever the session holds, so neither the comparison nor the duplicate
  query takes place (a session whose queries all raise changes nothing). The reasons of
  the verdict then contain no mismatch, match or duplicate-QR reason.
\<close>

theorem malformed_fingerprint_short_circuits:
  assumes "qr_code_hash p = None \<or> (\<exists>fp. qr_code_hash p = Some fp \<and> length fp \<noteq> 64)"
  shows "validate_qr_code p provided s =
           Inr (False, [''Invalid QR code hash format - possible counterfeit'']) \<and>
         (\<forall>r \<in> set (detection_reasons (detect_counterfeit e p vd provided)).
            \<not> comparison_reason r)"
proof -
  have q: "validate_qr_code p provided s' =
           Inr (False, [''Invalid QR code hash format - possible counterfeit''])" for s'
    using assms by (auto simp: validate_qr_code_def)
  have "\<not> comparison_reason r"
    if r: "r \<in> set (detection_reasons (detect_counterfeit e p vd provided))" for r
  proof (cases "run_checks e p vd provided")
    case (Inl msg)
    then show ?thesis
      using r by (simp add: detect_counterfeit_def detection_error_def comparison_reason_def)
  next
    case (Inr v)
    then obtain qr dup pat man where
      d: "check_duplicates p (db e) = Inr dup" and
      a: "analyze_verification_patterns p e = Inr pat" and
      m: "validate_manufacturer p (db e) = Inr man"
      using run_checks_Inr by blast
    have "detection_reasons (detect_counterfeit e p vd provided) =
        [''Invalid QR code hash format - possible counterfeit'']
        @ snd (validate_ipfs_data e p) @ snd (validate_blockchain_data p)
        @ snd dup @ snd pat @ snd man @ snd (check_data_consistency p vd e)"
      by (simp add: run_checks_explicit [OF q d a m refl refl refl refl refl refl refl])
    then have "r = ''Invalid QR code hash format - possible counterfeit''
        \<or> r \<in> set (snd (validate_ipfs_data e p)) \<or> r \<in> set (snd (validate_blockchain_data p))
        \<or> r \<in> set (snd dup) \<or> r \<in> set (snd pat) \<or> r \<in> set (snd man)
        \<or> r \<in> set (snd (check_data_consistency p vd e))"
      using r by auto
    moreover have "\<not> comparison_reason ''Invalid QR code hash format - possible counterfeit''"
      by (simp add: comparison_reason_def)
    ultimately show ?thesis
      using validate_ipfs_data_reasons validate_blockchain_data_reasons
        check_duplicates_reasons [OF d] analyze_verification_patterns_reasons [OF a]
        validate_manufacturer_reasons [OF m] check_data_consistency_reasons
      by blast
  qed
  then show ?thesis using q by blast
qed

theorem malformed_fingerprint_short_circuits_witness:
  "qr_code_hash (widget\<lparr>qr_code_hash := Some ''abc''\<rparr>) = Some ''abc'' \<and> length ''abc'' \<noteq> 64 \<and>
   validate_qr_code (widget\<lparr>qr_code_hash := Some ''abc''\<rparr>) (Some ''abc'')
       (shop_db\<lparr>db_fault := (\<lambda>q. Some ''connection lost'')\<rparr>) =
     Inr (False, [''Invalid QR code hash format - possible counterfeit'']) \<and>
   ''Product registered on blockchain''
     \<in> set (detection_reasons
         (detect_counterfeit shop_env (widget\<lparr>qr_code_hash := Some ''abc''\<rparr>) visit (Some ''abc''))) \<and>
   comparison_reason ''Product registered on blockchain'' = False"
proof -
  have h: "qr_code_hash (widget\<lparr>qr_code_hash := Some ''abc''\<rparr>) = Some ''abc'' \<and> length ''abc'' \<noteq> 64"
    by simp
  then have h': "qr_code_hash (widget\<lparr>qr_code_hash := Some ''abc''\<rparr>) = None \<or>
     (\<exists>fp. qr_code_hash (widget\<lparr>qr_code_hash := Some ''abc''\<rparr>) = Some fp \<and> length fp \<noteq> 64)"
    by blast
  have m: "''Product registered on blockchain''
     \<in> set (detection_reasons
         (detect_counterfeit shop_env (widget\<lparr>qr_code_hash := Some ''abc''\<rparr>) visit (Some ''abc'')))"
    by code_simp
  show ?thesis
    using h m malformed_fingerprint_short_circuits [OF h', of "Some ''abc''"
        "shop_db\<lparr>db_fault := (\<lambda>q. Some ''connection lost'')\<rparr>" shop_env visit]
    by blast
qed

text \<open>
  Claim C4, as the code has it. The format check looks at the length only. A product whose
  stored fingerprint is missing or has a length other than 64 gets a negative verdict,
  and when no exception leaves the checks the reasons contain
  "Invalid QR code hash format - possible counterfeit".
\<close>

theorem malformed_fingerprint_rejected:
  assumes "qr_code_hash p = None \<or> (\<exists>fp. qr_code_hash p = Some fp \<and> length fp \<noteq> 64)"
  shows "\<not> is_authentic (detect_counterfeit e p vd provided) \<and>
         (\<forall>v. run_checks e p vd provided = Inr v \<longrightarrow>
            ''Invalid QR code hash format - possible counterfeit'' \<in> set (detection_reasons v))"
proof -
  have q: "validate_qr_code p provided (db e) =
           Inr (False, [''Invalid QR code hash format - possible counterfeit''])"
    using assms by (auto simp: validate_qr_code_def)
  have r: "\<not> is_authentic v \<and>
           ''Invalid QR code hash format - possible counterfeit'' \<in> set (detection_reasons v)"
    if "run_checks e p vd provided = Inr v" for v
    using that q by (auto simp: run_checks_def Let_def split: sum.splits)
  show ?thesis
  proof (cases "run_checks e p vd provided")
    case (Inl msg)
    then show ?thesis by (simp add: detect_counterfeit_def detection_error_def)
  next
    case (Inr v)
    then show ?thesis using r [OF Inr] by (simp add: detect_counterfeit_def)
  qed
qed

theorem malformed_fingerprint_rejected_witness:
  "length ''abc'' \<noteq> 64 \<and>
   \<not> is_authentic (detect_counterfeit shop_env (widget\<lparr>qr_code_hash := Some ''abc''\<rparr>) visit (Some ''abc'')) \<and>
   ''Invalid QR code hash format - possible counterfeit''
      \<in> set (detection_reasons
         (detect_counterfeit shop_env (widget\<lparr>qr_code_hash := Some ''abc''\<rparr>) visit (Some ''abc'')))"
proof -
  have h: "qr_code_hash (widget\<lparr>qr_code_hash := Some ''abc''\<rparr>) = None \<or>
     (\<exists>fp. qr_code_hash (widget\<lparr>qr_code_hash := Some ''abc''\<rparr>) = Some fp \<and> length fp \<noteq> 64)"
    by simp
  have r: "run_checks shop_env (widget\<lparr>qr_code_hash := Some ''abc''\<rparr>) visit (Some ''abc'') =
       Inr (detect_counterfeit shop_env (widget\<lparr>qr_code_hash := Some ''abc''\<rparr>) visit (Some ''abc''))"
    by code_simp
  show ?thesis
    using r malformed_fingerprint_rejected [OF h, of shop_env visit "Some ''abc''"] by auto
qed

text \<open>
  The claim as the specification states it fails: a fingerprint of 64 characters none of
  which is a hexadecimal digit passes the format check, and the product is authentic.
\<close>

theorem non_hex_fingerprint_accepted:
  "length fp_z = 64 \<and> \<not> list_all spec_is_hex_digit fp_z \<and>
   is_authentic (detect_counterfeit shop_env (widget\<lparr>qr_code_hash := Some fp_z\<rparr>) visit (Some fp_z)) \<and>
   ''Invalid QR code hash format - possible counterfeit''
      \<notin> set (detection_reasons
         (detect_counterfeit shop_env (widget\<lparr>qr_code_hash := Some fp_z\<rparr>) visit (Some fp_z)))"
  by code_simp

section \<open>Scenarios\<close>

lemma str_nat_0: "str_nat 0 = ''0''"
  by (simp add: str_nat.simps digit_char_def)

lemma warning_count_fresh:
  "warning_count
      [''QR code hash format is valid'',
       ''QR code hash matches stored value'',
       ''QR code is unique - no duplicates found'',
       ''No IPFS data available - limited verification'',
       ''Product registered on blockchain'',
       ''No duplicate products found with same batch number'',
       ''Normal verification pattern: 0 in 30 days'',
       ''Manufacturer account is valid and verified'',
       ''Product information is complete'',
       ''Manufacturing date is reasonable''] = 1"
  by code_simp

lemma validate_qr_code_match:
  assumes "qr_code_hash p = Some fp" and "length fp = 64" and "provided = Some fp"
    and "\<forall>q \<in> set (products s). qr_code_hash q = Some fp \<longrightarrow> prod_id q = prod_id p"
    and "db_fault s Q_qr_duplicates = None"
  shows "validate_qr_code p provided s =
     Inr (True, [''QR code hash format is valid'', ''QR code hash matches stored value'',
                 ''QR code is unique - no duplicates found''])"
proof -
  have ne: "fp \<noteq> []" using assms(2) by auto
  have "other_products_with_qr s p fp = []"
    using assms(4) by (auto simp: other_products_with_qr_def filter_empty_conv)
  then show ?thesis using assms ne by (simp add: validate_qr_code_def truthy_def)
qed

lemma validate_ipfs_data_absent:
  "\<not> truthy (ipfs_hash p) \<Longrightarrow>
   validate_ipfs_data e p = (True, [''No IPFS data available - limited verification''])"
  by (auto simp: validate_ipfs_data_def truthy_def split: option.splits)

lemma check_duplicates_none:
  "db_fault s Q_batch_duplicates = None \<Longrightarrow> duplicate_products s p = [] \<Longrightarrow>
   check_duplicates p s = Inr (False, [''No duplicate products found with same batch number''])"
  by (simp add: check_duplicates_def)

lemma analyze_verification_patterns_none:
  "db_fault (db e) Q_recent_verifications = None \<Longrightarrow> recent_verifications e p = [] \<Longrightarrow>
   analyze_verification_patterns p e = Inr (False, [''Normal verification pattern: 0 in 30 days''])"
  by (simp add: analyze_verification_patterns_def str_nat_0)

lemma check_data_consistency_reasonable:
  assumes "product_name p \<noteq> []" and "batch_number p \<noteq> []" and "manufacturing_date p = Some d"
   and "d \<le> utcnow_future e" and "utcnow_old e - timedelta_days (365 * 10) \<le> d"
  shows "check_data_consistency p vd e =
     (True, [''Product information is complete'', ''Manufacturing date is reasonable''])"
  using assms by (simp add: check_data_consistency_def)

text \<open>
  Claim C7, as the code has it. A product with a unique well-formed fingerprint that is
  presented unchanged, a ledger id, an active and verified manufacturer, no IPFS hash,
  complete fields, a reasonable manufacturing date, no batch duplicate and no
  verification record is authentic with risk level low, and its score is 0.85: the reason
  "No IPFS data available - limited verification" contains "limited" and costs 0.05.
\<close>

theorem fresh_product_verdict:
  assumes "qr_code_hash p = Some fp" and "length fp = 64" and "provided = Some fp"
    and "\<forall>q \<in> set (products (db e)). qr_code_hash q = Some fp \<longrightarrow> prod_id q = prod_id p"
    and "blockchain_id p = Some b" and "b \<noteq> 0"
    and "find (\<lambda>u. user_id u = manufacturer_id p) (users (db e)) = Some m"
    and "user_is_active m" and "is_verified m"
    and "\<not> truthy (ipfs_hash p)"
    and "product_name p \<noteq> []" and "batch_number p \<noteq> []"
    and "manufacturing_date p = Some d"
    and "d \<le> utcnow_future e" and "utcnow_old e - timedelta_days (365 * 10) \<le> d"
    and "\<forall>v \<in> set (verifications (db e)). v_product_id v \<noteq> prod_id p"
    and "duplicate_products (db e) p = []"
    and "\<forall>q. db_fault (db e) q = None"
  shows "is_authentic (detect_counterfeit e p vd provided) \<and>
         confidence_score (detect_counterfeit e p vd provided) = 85 / 100 \<and>
         risk_level (detect_counterfeit e p vd provided) = ''low'' \<and>
         risk_factors (detect_counterfeit e p vd provided) = []"
proof -
  have qr: "validate_qr_code p provided (db e) =
     Inr (True, [''QR code hash format is valid'', ''QR code hash matches stored value'',
                 ''QR code is unique - no duplicates found''])"
    using assms(1-4) assms(18) by (intro validate_qr_code_match) simp_all
  have ip: "validate_ipfs_data e p = (True, [''No IPFS data available - limited verification''])"
    using assms(10) by (rule validate_ipfs_data_absent)
  have bc: "validate_blockchain_data p = (True, [''Product registered on blockchain''])"
    using assms(5,6) by (simp add: validate_blockchain_data_def)
  have du: "check_duplicates p (db e) =
     Inr (False, [''No duplicate products found with same batch number''])"
    using assms(17,18) by (simp add: check_duplicates_none)
  have "recent_verifications e p = []"
    using assms(16) by (auto simp: recent_verifications_def filter_empty_conv)
  then have pa: "analyze_verification_patterns p e =
     Inr (False, [''Normal verification pattern: 0 in 30 days''])"
    using assms(18) by (simp add: analyze_verification_patterns_none)
  have ma: "validate_manufacturer p (db e) =
     Inr (True, [''Manufacturer account is valid and verified''])"
    using assms(7,8,9,18) by (simp add: validate_manufacturer_def)
  have co: "check_data_consistency p vd e =
     (True, [''Product information is complete'', ''Manufacturing date is reasonable''])"
    using assms(11-15) by (rule check_data_consistency_reasonable)
  have sc: "calculate_confidence_score True []
      [''QR code hash format is valid'',
       ''QR code hash matches stored value'',
       ''QR code is unique - no duplicates found'',
       ''No IPFS data available - limited verification'',
       ''Product registered on blockchain'',
       ''No duplicate products found with same batch number'',
       ''Normal verification pattern: 0 in 30 days'',
       ''Manufacturer account is valid and verified'',
       ''Product information is complete'',
       ''Manufacturing date is reasonable''] = 17 / 20"
    unfolding calculate_confidence_score_def warning_count_fresh
    by (simp add: round2_def round_half_even_def)
  have rl: "calculate_risk_level [] (17 / 20) = ''low''"
    by (simp add: calculate_risk_level_def)
  show ?thesis
    unfolding run_checks_explicit [OF qr du pa ma ip bc co refl refl refl refl]
    by (simp add: sc rl)
qed

theorem fresh_product_verdict_witness:
  "qr_code_hash widget = Some fp_a \<and> length fp_a = 64 \<and>
   blockchain_id widget = Some 5 \<and>
   find (\<lambda>u. user_id u = manufacturer_id widget) (users (db shop_env)) = Some maker \<and>
   user_is_active maker \<and> is_verified maker \<and> \<not> truthy (ipfs_hash widget) \<and>
   manufacturing_date widget = Some 1699913600000000 \<and>
   duplicate_products (db shop_env) widget = [] \<and>
   is_authentic (detect_counterfeit shop_env widget visit (Some fp_a)) \<and>
   confidence_score (detect_counterfeit shop_env widget visit (Some fp_a)) = 85 / 100 \<and>
   risk_level (detect_counterfeit shop_env widget visit (Some fp_a)) = ''low'' \<and>
   risk_factors (detect_counterfeit shop_env widget visit (Some fp_a)) = []"
proof -
  have a1: "qr_code_hash widget = Some fp_a" by code_simp
  have a2: "length fp_a = 64" by code_simp
  have a4: "\<forall>q \<in> set (products (db shop_env)). qr_code_hash q = Some fp_a \<longrightarrow> prod_id q = prod_id widget"
    by (simp add: shop_env_def shop_db_def)
  have a5: "blockchain_id widget = Some 5" by code_simp
  have a6: "(5::int) \<noteq> 0" by simp
  have a7: "find (\<lambda>u. user_id u = manufacturer_id widget) (users (db shop_env)) = Some maker"
    by code_simp
  have a8: "user_is_active maker" by code_simp
  have a9: "is_verified maker" by code_simp
  have a10: "\<not> truthy (ipfs_hash widget)" by code_simp
  have a11: "product_name widget \<noteq> []" by code_simp
  have a12: "batch_number widget \<noteq> []" by code_simp
  have a13: "manufacturing_date widget = Some 1699913600000000" by code_simp
  have a14: "1699913600000000 \<le> utcnow_future shop_env" by code_simp
  have a15: "utcnow_old shop_env - timedelta_days (365 * 10) \<le> 1699913600000000" by code_simp
  have a16: "\<forall>v \<in> set (verifications (db shop_env)). v_product_id v \<noteq> prod_id widget"
    by (simp add: shop_env_def shop_db_def)
  have a17: "duplicate_products (db shop_env) widget = []" by code_simp
  have a18: "\<forall>q. db_fault (db shop_env) q = None" by (simp add: shop_env_def shop_db_def)
  show ?thesis
    using a1 a2 a5 a7 a8 a9 a10 a13 a17
      fresh_product_verdict [OF a1 a2 refl a4 a5 a6 a7 a8 a9 a10 a11 a12 a13 a14 a15 a16 a17 a18,
        of visit]
    by simp
qed

text \<open>
  The claim as the specification states it fails: the score of the scenario is 0.85, not
  0.9.
\<close>

theorem fresh_product_scores_085:
  "is_authentic (detect_counterfeit shop_env widget visit (Some fp_a)) \<and>
   confidence_score (detect_counterfeit shop_env widget visit (Some fp_a)) = 85 / 100 \<and>
   confidence_score (detect_counterfeit shop_env widget visit (Some fp_a)) \<noteq> 9 / 10 \<and>
   risk_level (detect_counterfeit shop_env widget visit (Some fp_a)) = ''low''"
  by code_simp

lemma warning_count_Cons:
  "warning_count (r # rs) = (if is_warning_reason r then 1 else 0) + warning_count rs"
  by (simp add: warning_count_def)

lemma warning_count_Nil: "warning_count [] = 0"
  by (simp add: warning_count_def)

lemma warning_count_append: "warning_count (xs @ ys) = warning_count xs + warning_count ys"
  by (simp add: warning_count_def)

lemma warning_reasons:
  "is_warning_reason ''No IPFS data available - limited verification''"
  "is_warning_reason ''Product is very old - verify authenticity''"
  by code_simp+

lemma plain_reasons:
  "\<not> is_warning_reason ''QR code hash format is valid''"
  "\<not> is_warning_reason ''QR code hash matches stored value''"
  "\<not> is_warning_reason ''QR code is unique - no duplicates found''"
  "\<not> is_warning_reason ''IPFS data integrity verified''"
  "\<not> is_warning_reason ''Product registered on blockchain''"
  "\<not> is_warning_reason ''Product not registered on blockchain''"
  "\<not> is_warning_reason ''No duplicate products found with same batch number''"
  "\<not> is_warning_reason ''Normal verification pattern: 0 in 30 days''"
  "\<not> is_warning_reason ''Manufacturer account is valid and verified''"
  "\<not> is_warning_reason ''Manufacturer account is not verified''"
  "\<not> is_warning_reason ''Product information is complete''"
  "\<not> is_warning_reason ''Manufacturing date is reasonable''"
  by code_simp+

lemma validate_qr_code_passes:
  assumes "qr_code_hash p = Some fp" and "length fp = 64"
    and "\<not> truthy provided \<or> provided = Some fp"
    and "\<forall>q \<in> set (products s). qr_code_hash q = Some fp \<longrightarrow> prod_id q = prod_id p"
    and "db_fault s Q_qr_duplicates = None"
  shows "validate_qr_code p provided s =
     Inr (True, ''QR code hash format is valid''
                # (if truthy provided then [''QR code hash matches stored value''] else [])
                @ [''QR code is unique - no duplicates found''])"
proof -
  have ne: "fp \<noteq> []" using assms(2) by auto
  have "other_products_with_qr s p fp = []"
    using assms(4) by (auto simp: other_products_with_qr_def filter_empty_conv)
  then show ?thesis using assms ne by (auto simp: validate_qr_code_def)
qed

lemma validate_ipfs_data_verified:
  assumes "ipfs_hash p = Some ih" and "ih \<noteq> []" and "retrieve_product_data e ih = Ipfs_success d"
    and "ipfs_product_name d = Some (product_name p)"
    and "ipfs_batch_number d = Some (batch_number p)"
  shows "validate_ipfs_data e p = (True, [''IPFS data integrity verified''])"
  using assms by (simp add: validate_ipfs_data_def)

text \<open>
  Claim C8, as the code has it. For a product without ledger id whose manufacturer is
  active but not verified, with every gate passed, complete fields, a reasonable date and
  no verification record, the verdict is authentic and the only risk factor is
  \<^verbatim>\<open>blockchain_invalid\<close>: the unverified manufacturer adds the reason "Manufacturer
  account is not verified" and no risk factor. The score is 0.7 with risk level low when
  the IPFS data is verified, and 0.65 with risk level medium when the product has no IPFS
  hash.
\<close>

theorem unregistered_unverified_verdict:
  assumes "qr_code_hash p = Some fp" and "length fp = 64"
    and "\<not> truthy provided \<or> provided = Some fp"
    and "\<forall>q \<in> set (products (db e)). qr_code_hash q = Some fp \<longrightarrow> prod_id q = prod_id p"
    and "blockchain_id p = None"
    and "find (\<lambda>u. user_id u = manufacturer_id p) (users (db e)) = Some m"
    and "user_is_active m" and "\<not> is_verified m"
    and "\<not> truthy (ipfs_hash p) \<or>
         (\<exists>ih d. ipfs_hash p = Some ih \<and> ih \<noteq> [] \<and> retrieve_product_data e ih = Ipfs_success d
            \<and> ipfs_product_name d = Some (product_name p)
            \<and> ipfs_batch_number d = Some (batch_number p))"
    and "product_name p \<noteq> []" and "batch_number p \<noteq> []"
    and "manufacturing_date p = Some d0"
    and "d0 \<le> utcnow_future e" and "utcnow_old e - timedelta_days (365 * 10) \<le> d0"
    and "\<forall>v \<in> set (verifications (db e)). v_product_id v \<noteq> prod_id p"
    and "duplicate_products (db e) p = []"
    and "\<forall>q. db_fault (db e) q = None"
  shows "is_authentic (detect_counterfeit e p vd provided) \<and>
         risk_factors (detect_counterfeit e p vd provided) = [''blockchain_invalid''] \<and>
         ''Manufacturer account is not verified''
            \<in> set (detection_reasons (detect_counterfeit e p vd provided)) \<and>
         confidence_score (detect_counterfeit e p vd provided)
            = (if truthy (ipfs_hash p) then 70 / 100 else 65 / 100) \<and>
         risk_level (detect_counterfeit e p vd provided)
            = (if truthy (ipfs_hash p) then ''low'' else ''medium'')"
proof -
  have qr: "validate_qr_code p provided (db e) =
     Inr (True, ''QR code hash format is valid''
                # (if truthy provided then [''QR code hash matches stored value''] else [])
                @ [''QR code is unique - no duplicates found''])"
    using assms(1-4) assms(17) by (intro validate_qr_code_passes) simp_all
  have ip: "validate_ipfs_data e p =
     (True, [if truthy (ipfs_hash p) then ''IPFS data integrity verified''
             else ''No IPFS data available - limited verification''])"
  proof (cases "truthy (ipfs_hash p)")
    case True
    then obtain ih d where "ipfs_hash p = Some ih" "ih \<noteq> []"
      "retrieve_product_data e ih = Ipfs_success d"
      "ipfs_product_name d = Some (product_name p)" "ipfs_batch_number d = Some (batch_number p)"
      using assms(9) by blast
    then show ?thesis using True by (simp add: validate_ipfs_data_verified)
  next
    case False
    then show ?thesis by (simp add: validate_ipfs_data_absent)
  qed
  have bc: "validate_blockchain_data p = (False, [''Product not registered on blockchain''])"
    using assms(5) by (simp add: validate_blockchain_data_def)
  have du: "check_duplicates p (db e) =
     Inr (False, [''No duplicate products found with same batch number''])"
    using assms(16,17) by (simp add: check_duplicates_none)
  have "recent_verifications e p = []"
    using assms(15) by (auto simp: recent_verifications_def filter_empty_conv)
  then have pa: "analyze_verification_patterns p e =
     Inr (False, [''Normal verification pattern: 0 in 30 days''])"
    using assms(17) by (simp add: analyze_verification_patterns_none)
  have ma: "validate_manufacturer p (db e) =
     Inr (True, [''Manufacturer account is not verified''])"
    using assms(6,7,8,17) by (simp add: validate_manufacturer_def)
  have co: "check_data_consistency p vd e =
     (True, [''Product information is complete'', ''Manufacturing date is reasonable''])"
    using assms(10-14) by (rule check_data_consistency_reasonable)
  have pen: "penalties ''blockchain_invalid'' = 2 / 10"
    by (simp add: penalties_def)
  show ?thesis
    unfolding run_checks_explicit [OF qr du pa ma ip bc co refl refl refl refl]
    by (simp add: calculate_confidence_score_def calculate_risk_level_def pen
        warning_count_Cons warning_count_Nil warning_count_append warning_reasons plain_reasons
        round2_def round_half_even_def)
qed

theorem unregistered_unverified_verdict_witness:
  "qr_code_hash unregistered_widget = Some fp_a \<and> length fp_a = 64 \<and>
   blockchain_id unregistered_widget = None \<and>
   find (\<lambda>u. user_id u = manufacturer_id unregistered_widget) (users (db shop_env))
     = Some maker_unverified \<and>
   user_is_active maker_unverified \<and> is_verified maker_unverified = False \<and>
   truthy (ipfs_hash unregistered_widget) = False \<and>
   is_authentic (detect_counterfeit shop_env unregistered_widget visit (Some fp_a)) \<and>
   risk_factors (detect_counterfeit shop_env unregistered_widget visit (Some fp_a))
     = [''blockchain_invalid''] \<and>
   confidence_score (detect_counterfeit shop_env unregistered_widget visit (Some fp_a)) = 65 / 100 \<and>
   risk_level (detect_counterfeit shop_env unregistered_widget visit (Some fp_a)) = ''medium''"
proof -
  have a1: "qr_code_hash unregistered_widget = Some fp_a" by code_simp
  have a2: "length fp_a = 64" by code_simp
  have a3: "\<not> truthy (Some fp_a) \<or> Some fp_a = Some fp_a" by simp
  have a4: "\<forall>q \<in> set (products (db shop_env)).
      qr_code_hash q = Some fp_a \<longrightarrow> prod_id q = prod_id unregistered_widget"
    by (simp add: shop_env_def shop_db_def unregistered_widget_def widget_def)
  have a5: "blockchain_id unregistered_widget = None" by code_simp
  have a6: "find (\<lambda>u. user_id u = manufacturer_id unregistered_widget) (users (db shop_env))
     = Some maker_unverified"
    by code_simp
  have a7: "user_is_active maker_unverified" by code_simp
  have a8: "\<not> is_verified maker_unverified" by code_simp
  have a9': "\<not> truthy (ipfs_hash unregistered_widget)" by code_simp
  then have a9: "\<not> truthy (ipfs_hash unregistered_widget) \<or>
         (\<exists>ih d. ipfs_hash unregistered_widget = Some ih \<and> ih \<noteq> []
            \<and> retrieve_product_data shop_env ih = Ipfs_success d
            \<and> ipfs_product_name d = Some (product_name unregistered_widget)
            \<and> ipfs_batch_number d = Some (batch_number unregistered_widget))"
    by blast
  have a10: "product_name unregistered_widget \<noteq> []" by code_simp
  have a11: "batch_number unregistered_widget \<noteq> []" by code_simp
  have a12: "manufacturing_date unregistered_widget = Some 1699913600000000" by code_simp
  have a13: "1699913600000000 \<le> utcnow_future shop_env" by code_simp
  have a14: "utcnow_old shop_env - timedelta_days (365 * 10) \<le> 1699913600000000" by code_simp
  have a15: "\<forall>v \<in> set (verifications (db shop_env)). v_product_id v \<noteq> prod_id unregistered_widget"
    by (simp add: shop_env_def shop_db_def)
  have a16: "duplicate_products (db shop_env) unregistered_widget = []" by code_simp
  have a17: "\<forall>q. db_fault (db shop_env) q = None" by (simp add: shop_env_def shop_db_def)
  show ?thesis
    using a1 a2 a5 a6 a7 a8 a9'
      unregistered_unverified_verdict
        [OF a1 a2 a3 a4 a5 a6 a7 a8 a9 a10 a11 a12 a13 a14 a15 a16 a17, of visit]
    by simp
qed

text \<open>
  The claim as the specification states it fails: in this scenario the score is 0.65, not
  0.5, and the risk factors do not contain \<^verbatim>\<open>manufacturer_invalid\<close>.
\<close>

theorem unregistered_unverified_scores_065:
  "is_authentic (detect_counterfeit shop_env unregistered_widget visit (Some fp_a)) \<and>
   confidence_score (detect_counterfeit shop_env unregistered_widget visit (Some fp_a)) = 65 / 100 \<and>
   confidence_score (detect_counterfeit shop_env unregistered_widget visit (Some fp_a)) \<noteq> 5 / 10 \<and>
   ''manufacturer_invalid''
      \<notin> set (risk_factors (detect_counterfeit shop_env unregistered_widget visit (Some fp_a)))"
  by code_simp

lemma penalties_grid: "\<exists>k::int. penalties f = of_int k / 10"
proof -
  have "penalties f \<in> {1 / 10, 2 / 10, 3 / 10, 4 / 10, 5 / 10}"
    by (simp add: penalties_def)
  then consider "penalties f = of_int 1 / 10" | "penalties f = of_int 2 / 10"
    | "penalties f = of_int 3 / 10" | "penalties f = of_int 4 / 10" | "penalties f = of_int 5 / 10"
    by auto
  then show ?thesis by cases blast+
qed

lemma total_penalty_grid: "\<exists>k::int. sum_list (map penalties rfs) = of_int k / 10"
proof (induction rfs)
  case Nil
  have "sum_list (map penalties []) = of_int 0 / 10" by simp
  then show ?case by blast
next
  case (Cons f rfs)
  obtain a :: int where a: "penalties f = of_int a / 10" using penalties_grid by blast
  obtain b :: int where b: "sum_list (map penalties rfs) = of_int b / 10" using Cons by blast
  have "sum_list (map penalties (f # rfs)) = of_int (a + b) / 10"
    by (simp add: a b add_divide_distrib)
  then show ?case by blast
qed

lemma round2_grid: "round2 (max 0 (of_int n / 20)) = max 0 (of_int n / 20)"
proof -
  have m: "max 0 (of_int n / 20 :: rat) = of_int (max 0 n) / 20"
    by (simp add: max_def)
  have "(of_int (max 0 n) / 20 :: rat) * 100 = of_int (5 * max 0 n)" by simp
  then have "round_half_even ((of_int (max 0 n) / 20 :: rat) * 100) = 5 * max 0 n"
    by (simp only: round_half_even_of_int)
  then show ?thesis unfolding m round2_def by simp
qed

lemma calculate_confidence_score_exact:
  "calculate_confidence_score True rfs rs =
     max 0 (9 / 10 - sum_list (map penalties rfs) - of_nat (warning_count rs) / 20)"
proof -
  obtain k :: int where k: "sum_list (map penalties rfs) = of_int k / 10"
    using total_penalty_grid by blast
  have e: "(9 / 10 - of_int k / 10 - of_nat (warning_count rs) / 20 :: rat)
        = of_int (18 - 2 * k - int (warning_count rs)) / 20"
    by (simp add: field_simps)
  have c: "calculate_confidence_score True rfs rs =
      round2 (max 0 (9 / 10 - of_int k / 10 - of_nat (warning_count rs) / 20))"
    by (simp add: calculate_confidence_score_def Let_def k)
  show ?thesis unfolding c k e by (rule round2_grid)
qed

lemma score_step:
  assumes "warning_count rs' = warning_count rs + 1"
  shows "calculate_confidence_score a rfs rs' = max 0 (calculate_confidence_score a rfs rs - 5 / 100)"
proof (cases a)
  case False
  then show ?thesis by (simp add: calculate_confidence_score_def)
next
  case True
  define X where "X = 9 / 10 - sum_list (map penalties rfs) - of_nat (warning_count rs) / 20"
  have n: "calculate_confidence_score True rfs rs = max 0 X"
    unfolding X_def by (rule calculate_confidence_score_exact)
  have "calculate_confidence_score True rfs rs' =
      max 0 (9 / 10 - sum_list (map penalties rfs) - of_nat (warning_count rs + 1) / 20)"
    unfolding assms [symmetric] by (rule calculate_confidence_score_exact)
  also have "\<dots> = max 0 (X - 1 / 20)"
    by (simp add: X_def add_divide_distrib)
  finally have o: "calculate_confidence_score True rfs rs' = max 0 (X - 1 / 20)" .
  show ?thesis using True unfolding n o using True by (simp add: n o max_def)
qed

lemma other_products_with_qr_date:
  "other_products_with_qr s (p\<lparr>manufacturing_date := x\<rparr>) = other_products_with_qr s p"
  by (simp add: other_products_with_qr_def fun_eq_iff)

lemma duplicate_products_date:
  "duplicate_products s (p\<lparr>manufacturing_date := x\<rparr>) = duplicate_products s p"
  by (simp add: duplicate_products_def)

lemma recent_verifications_date:
  "recent_verifications e (p\<lparr>manufacturing_date := x\<rparr>) = recent_verifications e p"
  by (simp add: recent_verifications_def)

lemma validate_qr_code_date:
  "validate_qr_code (p\<lparr>manufacturing_date := x\<rparr>) h s = validate_qr_code p h s"
  unfolding validate_qr_code_def other_products_with_qr_date
  by (simp split: option.split)

lemma validate_ipfs_data_date:
  "validate_ipfs_data e (p\<lparr>manufacturing_date := x\<rparr>) = validate_ipfs_data e p"
  unfolding validate_ipfs_data_def
  by (simp split: option.split ipfs_outcome.split)

lemma validate_blockchain_data_date:
  "validate_blockchain_data (p\<lparr>manufacturing_date := x\<rparr>) = validate_blockchain_data p"
  unfolding validate_blockchain_data_def by simp

lemma check_duplicates_date:
  "check_duplicates (p\<lparr>manufacturing_date := x\<rparr>) s = check_duplicates p s"
  unfolding check_duplicates_def duplicate_products_date
  by (simp split: option.split)

lemma analyze_verification_patterns_date:
  "analyze_verification_patterns (p\<lparr>manufacturing_date := x\<rparr>) e
     = analyze_verification_patterns p e"
  unfolding analyze_verification_patterns_def recent_verifications_date
  by (simp split: option.split)

lemma validate_manufacturer_date:
  "validate_manufacturer (p\<lparr>manufacturing_date := x\<rparr>) s = validate_manufacturer p s"
  unfolding validate_manufacturer_def
  by (simp split: option.split)

lemmas manufacturing_date_irrelevant =
  validate_qr_code_date validate_ipfs_data_date validate_blockchain_data_date
  check_duplicates_date analyze_verification_patterns_date validate_manufacturer_date

lemma check_data_consistency_old:
  assumes "d \<le> utcnow_future e" and "d < utcnow_old e - timedelta_days (365 * 10)"
  shows "check_data_consistency (p\<lparr>manufacturing_date := Some d\<rparr>) vd e =
     (product_name p \<noteq> [] \<and> batch_number p \<noteq> [],
      [if product_name p = [] \<or> batch_number p = []
       then ''Missing required product information'' else ''Product information is complete'',
       ''Product is very old - verify authenticity''])"
  using assms by (simp add: check_data_consistency_def)

lemma check_data_consistency_recent:
  assumes "d \<le> utcnow_future e" and "utcnow_old e - timedelta_days (365 * 10) \<le> d"
  shows "check_data_consistency (p\<lparr>manufacturing_date := Some d\<rparr>) vd e =
     (product_name p \<noteq> [] \<and> batch_number p \<noteq> [],
      [if product_name p = [] \<or> batch_number p = []
       then ''Missing required product information'' else ''Product information is complete'',
       ''Manufacturing date is reasonable''])"
  using assms by (simp add: check_data_consistency_def)

text \<open>
  Claim C9, as the code has it. A manufacturing date more than ten years old adds no risk
  factor and does not change the verdict, but its reason "Product is very old - verify
  authenticity" contains "old" and counts as a warning: against the same product with a
  reasonable date the score is lower by 0.05, and stays 0 where it was 0.
\<close>

theorem old_date_costs_one_warning:
  assumes "d_old \<le> utcnow_future e" and "d_old < utcnow_old e - timedelta_days (365 * 10)"
    and "d_new \<le> utcnow_future e" and "utcnow_old e - timedelta_days (365 * 10) \<le> d_new"
  shows "is_authentic (detect_counterfeit e (p\<lparr>manufacturing_date := Some d_old\<rparr>) vd h)
           = is_authentic (detect_counterfeit e (p\<lparr>manufacturing_date := Some d_new\<rparr>) vd h) \<and>
         risk_factors (detect_counterfeit e (p\<lparr>manufacturing_date := Some d_old\<rparr>) vd h)
           = risk_factors (detect_counterfeit e (p\<lparr>manufacturing_date := Some d_new\<rparr>) vd h) \<and>
         confidence_score (detect_counterfeit e (p\<lparr>manufacturing_date := Some d_old\<rparr>) vd h)
           = max 0 (confidence_score
                (detect_counterfeit e (p\<lparr>manufacturing_date := Some d_new\<rparr>) vd h) - 5 / 100)"
proof (cases "run_checks e (p\<lparr>manufacturing_date := Some d_new\<rparr>) vd h")
  case (Inl msg)
  then have "run_checks e (p\<lparr>manufacturing_date := Some d_old\<rparr>) vd h = Inl msg"
    unfolding run_checks_def manufacturing_date_irrelevant
    by (auto simp: Let_def split: sum.splits)
  then show ?thesis using Inl by (simp add: detect_counterfeit_def detection_error_def)
next
  case (Inr v)
  then obtain qr dup pat man where
    q: "validate_qr_code (p\<lparr>manufacturing_date := Some d_new\<rparr>) h (db e) = Inr qr" and
    d: "check_duplicates (p\<lparr>manufacturing_date := Some d_new\<rparr>) (db e) = Inr dup" and
    a: "analyze_verification_patterns (p\<lparr>manufacturing_date := Some d_new\<rparr>) e = Inr pat" and
    m: "validate_manufacturer (p\<lparr>manufacturing_date := Some d_new\<rparr>) (db e) = Inr man"
    using run_checks_Inr by blast
  have q': "validate_qr_code (p\<lparr>manufacturing_date := Some d_old\<rparr>) h (db e) = Inr qr"
    using q by (simp add: manufacturing_date_irrelevant)
  have d': "check_duplicates (p\<lparr>manufacturing_date := Some d_old\<rparr>) (db e) = Inr dup"
    using d by (simp add: manufacturing_date_irrelevant)
  have a': "analyze_verification_patterns (p\<lparr>manufacturing_date := Some d_old\<rparr>) e = Inr pat"
    using a by (simp add: manufacturing_date_irrelevant)
  have m': "validate_manufacturer (p\<lparr>manufacturing_date := Some d_old\<rparr>) (db e) = Inr man"
    using m by (simp add: manufacturing_date_irrelevant)
  define c1 where "c1 = (if product_name p = [] \<or> batch_number p = []
       then ''Missing required product information'' else ''Product information is complete'')"
  define c where "c = (product_name p \<noteq> [] \<and> batch_number p \<noteq> [])"
  define R where "R = snd qr @ snd (validate_ipfs_data e p) @ snd (validate_blockchain_data p)
       @ snd dup @ snd pat @ snd man"
  define A where "A = (fst qr \<and> fst (validate_ipfs_data e p) \<and> \<not> fst dup)"
  define RF where "RF = (if \<not> fst qr then [''qr_invalid''] else [])
       @ (if \<not> fst (validate_ipfs_data e p) then [''ipfs_invalid''] else [])
       @ (if \<not> fst (validate_blockchain_data p) then [''blockchain_invalid''] else [])
       @ (if fst dup then [''duplicate_detected''] else [])
       @ (if fst pat then [''suspicious_pattern''] else [])
       @ (if \<not> fst man then [''manufacturer_invalid''] else [])
       @ (if \<not> c then [''data_inconsistent''] else [])"
  have cn: "check_data_consistency (p\<lparr>manufacturing_date := Some d_new\<rparr>) vd e =
      (c, [c1, ''Manufacturing date is reasonable''])"
    unfolding c_def c1_def by (rule check_data_consistency_recent [OF assms(3,4)])
  have co: "check_data_consistency (p\<lparr>manufacturing_date := Some d_old\<rparr>) vd e =
      (c, [c1, ''Product is very old - verify authenticity''])"
    unfolding c_def c1_def by (rule check_data_consistency_old [OF assms(1,2)])
  have vn: "detect_counterfeit e (p\<lparr>manufacturing_date := Some d_new\<rparr>) vd h =
     \<lparr>is_authentic = A,
      detection_reasons = R @ [c1, ''Manufacturing date is reasonable''],
      confidence_score =
        calculate_confidence_score A RF (R @ [c1, ''Manufacturing date is reasonable'']),
      risk_level = calculate_risk_level RF
        (calculate_confidence_score A RF (R @ [c1, ''Manufacturing date is reasonable''])),
      risk_factors = RF,
      validation_summary =
               [(''qr_valid'', fst qr),
                (''blockchain_valid'', fst (validate_blockchain_data p)),
                (''no_duplicates'', \<not> fst dup),
                (''normal_pattern'', \<not> fst pat),
                (''manufacturer_valid'', fst man),
                (''data_consistent'', c)]\<rparr>"
    using run_checks_explicit [OF q d a m refl refl cn refl refl refl refl]
    by (simp add: manufacturing_date_irrelevant R_def A_def RF_def)
  have vo: "detect_counterfeit e (p\<lparr>manufacturing_date := Some d_old\<rparr>) vd h =
     \<lparr>is_authentic = A,
      detection_reasons = R @ [c1, ''Product is very old - verify authenticity''],
      confidence_score =
        calculate_confidence_score A RF (R @ [c1, ''Product is very old - verify authenticity'']),
      risk_level = calculate_risk_level RF
        (calculate_confidence_score A RF (R @ [c1, ''Product is very old - verify authenticity''])),
      risk_factors = RF,
      validation_summary =
               [(''qr_valid'', fst qr),
                (''blockchain_valid'', fst (validate_blockchain_data p)),
                (''no_duplicates'', \<not> fst dup),
                (''normal_pattern'', \<not> fst pat),
                (''manufacturer_valid'', fst man),
                (''data_consistent'', c)]\<rparr>"
    using run_checks_explicit [OF q' d' a' m' refl refl co refl refl refl refl]
    by (simp add: manufacturing_date_irrelevant R_def A_def RF_def)
  have wc: "warning_count (R @ [c1, ''Product is very old - verify authenticity''])
          = warning_count (R @ [c1, ''Manufacturing date is reasonable'']) + 1"
    by (simp add: warning_count_append warning_count_Cons warning_count_Nil
        warning_reasons plain_reasons)
  show ?thesis unfolding vn vo by (simp add: score_step [OF wc])
qed

theorem old_date_costs_one_warning_witness:
  "1354400000000000 \<le> utcnow_future shop_env \<and>
   1354400000000000 < utcnow_old shop_env - timedelta_days (365 * 10) \<and>
   1699913600000000 \<le> utcnow_future shop_env \<and>
   utcnow_old shop_env - timedelta_days (365 * 10) \<le> 1699913600000000 \<and>
   confidence_score (detect_counterfeit shop_env
      (widget\<lparr>manufacturing_date := Some 1354400000000000\<rparr>) visit (Some fp_a))
     = max 0 (confidence_score (detect_counterfeit shop_env
         (widget\<lparr>manufacturing_date := Some 1699913600000000\<rparr>) visit (Some fp_a)) - 5 / 100)"
proof -
  have b1: "1354400000000000 \<le> utcnow_future shop_env" by code_simp
  have b2: "1354400000000000 < utcnow_old shop_env - timedelta_days (365 * 10)" by code_simp
  have b3: "1699913600000000 \<le> utcnow_future shop_env" by code_simp
  have b4: "utcnow_old shop_env - timedelta_days (365 * 10) \<le> 1699913600000000" by code_simp
  show ?thesis
    using b1 b2 b3 b4 old_date_costs_one_warning [OF b1 b2 b3 b4, of widget visit "Some fp_a"]
    by blast
qed

text \<open>
  The claim as the specification states it fails: both products are authentic, and the old
  one scores 0.8 where the recent one scores 0.85.
\<close>

theorem old_product_scores_less:
  "is_authentic (detect_counterfeit shop_env widget visit (Some fp_a)) \<and>
   is_authentic (detect_counterfeit shop_env
      (widget\<lparr>manufacturing_date := Some 1354400000000000\<rparr>) visit (Some fp_a)) \<and>
   confidence_score (detect_counterfeit shop_env widget visit (Some fp_a)) = 85 / 100 \<and>
   confidence_score (detect_counterfeit shop_env
      (widget\<lparr>manufacturing_date := Some 1354400000000000\<rparr>) visit (Some fp_a)) = 80 / 100"
  by code_simp

end
